theory Spec2Isabelle
  imports Complex_Main
begin

section \<open>Conventions\<close>

text \<open>
  The carousel is JavaScript; its numbers are IEEE doubles. They are modelled as
  \<^typ>\<open>real\<close>: \<open>Math.exp\<close> is \<^const>\<open>exp\<close>, \<open>Math.pow(x, y)\<close> is \<open>x powr y\<close> (the two agree
  for a positive base, and for base 0 with a positive exponent), \<open>Math.floor\<close> is
  \<^const>\<open>floor\<close>. Rounding, \<open>NaN\<close> and overflow are outside the model; where a divisor of
  the source can be 0, the model says what JavaScript yields there, or says that it
  takes the divisor to be non-zero. Slot indices handed in by callers are \<^typ>\<open>int\<close>;
  \<open>null\<close> is \<open>None\<close>.
  Every class keeps its \<open>state\<close> object as a record, and each method is a function from
  the state before the call to the state after it.
\<close>

datatype error = TypeError

section \<open>StageAnimationSystem\<close>

record layer =
  offset :: real
  targetOffset :: real

record stage =
  imageIndex :: nat
  image_part :: layer
  mask_part :: layer

record stage_state =
  stages :: "stage list"
  renderOrder :: "int list"
  stage_currentIndex :: "int option"
  stage_isTransitioning :: bool
  isJumpTransition :: bool

definition imageSmoothing :: real where "imageSmoothing = 0.4"
definition maskSmoothing :: real where "maskSmoothing = 0.4"
definition minThreshold :: real where "minThreshold = 0.00001"

definition stage_initialize :: "nat \<Rightarrow> stage_state \<Rightarrow> stage_state" where
  "stage_initialize nImages s =
     s\<lparr>stages := map (\<lambda>index. \<lparr>imageIndex = index,
                                  image_part = \<lparr>offset = 0, targetOffset = 0\<rparr>,
                                  mask_part = \<lparr>offset = 0, targetOffset = 0\<rparr>\<rparr>) [0..<nImages],
       renderOrder := map int [0..<nImages]\<rparr>"

definition new_StageAnimationSystem :: "nat \<Rightarrow> stage_state" where
  "new_StageAnimationSystem nImages =
     stage_initialize nImages
       \<lparr>stages = [], renderOrder = [], stage_currentIndex = None,
        stage_isTransitioning = False, isJumpTransition = False\<rparr>"

text \<open>
  \<open>updateRenderOrder\<close>: the centred slot, the slots before it in reverse order, the slots
  after it in order. \<open>Array.from({length: k})\<close> is empty for \<open>k \<le> 0\<close>, as the integer
  interval \<open>[0..k - 1]\<close> is.
\<close>

definition updateRenderOrder :: "int \<Rightarrow> stage_state \<Rightarrow> stage_state" where
  "updateRenderOrder currentIndex s =
     (let totalLength = int (length (stages s));
          beforeElements = rev [0..currentIndex - 1];
          afterElements = map (\<lambda>i. currentIndex + 1 + i) [0..totalLength - currentIndex - 1 - 1]
      in s\<lparr>renderOrder := [currentIndex] @ beforeElements @ afterElements\<rparr>)"

definition initializeStage :: "int \<Rightarrow> stage_state \<Rightarrow> stage_state" where
  "initializeStage imgIndex s =
     updateRenderOrder imgIndex
       (s\<lparr>stages := map (\<lambda>(index, stg).
                     if int index < imgIndex then
                       stg\<lparr>image_part := \<lparr>offset = - 0.5, targetOffset = - 0.5\<rparr>,
                           mask_part := \<lparr>offset = - 1, targetOffset = - 1\<rparr>\<rparr>
                     else if int index > imgIndex then
                       stg\<lparr>image_part := \<lparr>offset = 0.5, targetOffset = 0.5\<rparr>,
                           mask_part := \<lparr>offset = 1, targetOffset = 1\<rparr>\<rparr>
                     else
                       stg\<lparr>image_part := \<lparr>offset = 0, targetOffset = 0\<rparr>,
                           mask_part := \<lparr>offset = 0, targetOffset = 0\<rparr>\<rparr>)
                   (enumerate 0 (stages s)),
          stage_currentIndex := Some imgIndex,
          stage_isTransitioning := False\<rparr>)"

text \<open>The body of the \<open>forEach\<close> of a jump transition, for the stage at position \<open>idx\<close>.\<close>

definition jumpStage :: "int \<Rightarrow> int option \<Rightarrow> nat \<times> stage \<Rightarrow> stage" where
  "jumpStage newIndex cur = (\<lambda>(idx, stg).
     if int idx = newIndex then
       stg\<lparr>image_part := (image_part stg)\<lparr>targetOffset := 0\<rparr>,
           mask_part := (mask_part stg)\<lparr>targetOffset := 0\<rparr>\<rparr>
     else if Some (int idx) = cur then
       (let direction = (if newIndex > int idx then - 1 else 1)
        in stg\<lparr>image_part := (image_part stg)\<lparr>targetOffset := direction * 0.5\<rparr>,
               mask_part := (mask_part stg)\<lparr>targetOffset := direction\<rparr>\<rparr>)
     else
       (let direction = (if newIndex > int idx then - 1 else 1)
        in stg\<lparr>image_part := \<lparr>offset = direction * 0.5, targetOffset = direction * 0.5\<rparr>,
               mask_part := \<lparr>offset = direction, targetOffset = direction\<rparr>\<rparr>))"

text \<open>The body of the \<open>forEach\<close> of a sequential transition.\<close>

definition sequentialStage :: "int \<Rightarrow> nat \<times> stage \<Rightarrow> stage" where
  "sequentialStage newIndex = (\<lambda>(idx, stg).
     let direction = (if newIndex > int idx then - 1 else 1)
     in if int idx = newIndex then
          stg\<lparr>image_part := (image_part stg)\<lparr>targetOffset := 0\<rparr>,
              mask_part := (mask_part stg)\<lparr>targetOffset := 0\<rparr>\<rparr>
        else
          stg\<lparr>image_part := (image_part stg)\<lparr>targetOffset := direction * 0.5\<rparr>,
              mask_part := (mask_part stg)\<lparr>targetOffset := direction\<rparr>\<rparr>)"

definition transitionTo :: "int \<Rightarrow> stage_state \<Rightarrow> stage_state" where
  "transitionTo newIndex s =
     (if Some newIndex = stage_currentIndex s then s
      else
        (updateRenderOrder newIndex
           (s\<lparr>stages := (if isJumpTransition s
                          then map (jumpStage newIndex (stage_currentIndex s)) (enumerate 0 (stages s))
                          else map (sequentialStage newIndex) (enumerate 0 (stages s))),
              stage_currentIndex := Some newIndex,
              stage_isTransitioning := True\<rparr>))
        \<lparr>isJumpTransition := False\<rparr>)"

definition stage_jumpToImage :: "int \<Rightarrow> stage_state \<Rightarrow> stage_state" where
  "stage_jumpToImage newIndex s =
     (if Some newIndex = stage_currentIndex s then s
      else transitionTo newIndex (s\<lparr>isJumpTransition := True\<rparr>))"

definition stage_step :: "real \<Rightarrow> stage \<Rightarrow> stage" where
  "stage_step dt stg =
     (let imageSpeed = imageSmoothing * dt;
          maskSpeed = maskSmoothing * dt;
          imageDelta = targetOffset (image_part stg) - offset (image_part stg);
          maskDelta = targetOffset (mask_part stg) - offset (mask_part stg)
      in stg\<lparr>image_part := (image_part stg)\<lparr>offset := offset (image_part stg) + imageDelta * imageSpeed\<rparr>,
             mask_part := (mask_part stg)\<lparr>offset := offset (mask_part stg) + maskDelta * maskSpeed\<rparr>\<rparr>)"

definition stage_updateAnimation :: "real \<Rightarrow> stage_state \<Rightarrow> stage_state" where
  "stage_updateAnimation dt s =
     (if \<not> stage_isTransitioning s then s
      else
        (let allComplete =
               list_all (\<lambda>stg. \<not> \<bar>targetOffset (image_part stg) - offset (image_part stg)\<bar> > minThreshold)
                 (stages s);
             s1 = s\<lparr>stages := map (stage_step dt) (stages s)\<rparr>
         in if allComplete then s1\<lparr>stage_isTransitioning := False\<rparr> else s1))"

section \<open>ImageZoomSystem\<close>

record zoom_state =
  zoom_isActive :: bool
  isZoomingOut :: bool
  isZoomingIn :: bool
  zoom_imageIndex :: "int option"
  zoom_progress :: real
  stageSystem :: stage_state

definition transitionSmoothing :: real where "transitionSmoothing = 0.13"
definition isCompleteThreshold :: real where "isCompleteThreshold = 0.0000001"

definition new_ImageZoomSystem :: "nat \<Rightarrow> zoom_state" where
  "new_ImageZoomSystem nImages =
     \<lparr>zoom_isActive = False, isZoomingOut = False, isZoomingIn = False,
      zoom_imageIndex = None, zoom_progress = 0,
      stageSystem = new_StageAnimationSystem nImages\<rparr>"

definition zoomIn :: "int \<Rightarrow> zoom_state \<Rightarrow> zoom_state" where
  "zoomIn imgIndex z =
     z\<lparr>isZoomingOut := False,
       zoom_isActive := True,
       isZoomingIn := True,
       zoom_imageIndex := Some imgIndex,
       zoom_progress := 0,
       stageSystem := initializeStage imgIndex (stageSystem z)\<rparr>"

definition zoomOut :: "zoom_state \<Rightarrow> zoom_state" where
  "zoomOut z = z\<lparr>isZoomingOut := True, isZoomingIn := False\<rparr>"

definition transitionToImage :: "int \<Rightarrow> zoom_state \<Rightarrow> zoom_state" where
  "transitionToImage newIndex z =
     (if Some newIndex \<noteq> zoom_imageIndex z
      then z\<lparr>stageSystem := transitionTo newIndex (stageSystem z),
             zoom_imageIndex := Some newIndex\<rparr>
      else z)"

definition zoom_jumpToImage :: "int \<Rightarrow> zoom_state \<Rightarrow> zoom_state" where
  "zoom_jumpToImage newIndex z =
     (if Some newIndex \<noteq> zoom_imageIndex z
      then z\<lparr>stageSystem := stage_jumpToImage newIndex (stageSystem z),
             zoom_imageIndex := Some newIndex\<rparr>
      else z)"

definition zoom_updateAnimation :: "real \<Rightarrow> zoom_state \<Rightarrow> zoom_state" where
  "zoom_updateAnimation dt0 z =
     (if \<not> zoom_isActive z then z
      else
        (let dt = (if isZoomingIn z then dt0 * 0.2 else dt0 * 0.8);
             targetProgress = (if isZoomingOut z then 0 else 1);
             z1 = z\<lparr>zoom_progress :=
                       zoom_progress z + (targetProgress - zoom_progress z) * transitionSmoothing * dt,
                    stageSystem := stage_updateAnimation dt (stageSystem z)\<rparr>
         in if isZoomingOut z1 \<and> zoom_progress z1 < isCompleteThreshold
            then z1\<lparr>isZoomingOut := False, zoom_isActive := False\<rparr>
            else z1))"

section \<open>CrossAnimationSystem\<close>

record cross_part =
  isVisible :: bool
  isAnimatingIn :: bool
  isAnimatingOut :: bool
  currentLength :: real
  showDelayRemaining :: real

record side_part = cross_part +
  currentRotation :: real
  targetRotation :: real
  isRotating :: bool

record cross_state =
  center :: cross_part
  sides :: side_part

definition cross_smoothing :: real where "cross_smoothing = 0.15"
definition maxLineLength :: real where "maxLineLength = 11"
definition showMinThreshold :: real where "showMinThreshold = 0.01"
definition centerShowDelay :: real where "centerShowDelay = 0.2"
definition sidesShowDelay :: real where "sidesShowDelay = 0.2"
definition delaySlowFactor :: real where "delaySlowFactor = 0.005"
definition rotationSmoothing :: real where "rotationSmoothing = 0.075"

definition new_CrossAnimationSystem :: cross_state where
  "new_CrossAnimationSystem =
     \<lparr>center = \<lparr>isVisible = True, isAnimatingIn = False, isAnimatingOut = False,
                currentLength = maxLineLength, showDelayRemaining = 0\<rparr>,
      sides = \<lparr>isVisible = False, isAnimatingIn = False, isAnimatingOut = False,
               currentLength = 0, showDelayRemaining = 0,
               currentRotation = 0, targetRotation = 0, isRotating = False\<rparr>\<rparr>"

definition rotateSideCrosses :: "real \<Rightarrow> cross_state \<Rightarrow> cross_state" where
  "rotateSideCrosses direction c =
     (if \<not> isVisible (sides c) then c
      else c\<lparr>sides := (sides c)\<lparr>targetRotation := targetRotation (sides c) + direction * (pi / 2),
                                isRotating := True\<rparr>\<rparr>)"

definition resetRotation :: "cross_state \<Rightarrow> cross_state" where
  "resetRotation c =
     c\<lparr>sides := (sides c)\<lparr>currentRotation := 0, targetRotation := 0, isRotating := False\<rparr>\<rparr>"

definition showCenter :: "cross_state \<Rightarrow> cross_state" where
  "showCenter c =
     c\<lparr>center := (center c)\<lparr>isAnimatingOut := False, isVisible := True, isAnimatingIn := True,
                              showDelayRemaining := centerShowDelay\<rparr>,
       sides := (sides c)\<lparr>isAnimatingOut := True, isAnimatingIn := False\<rparr>\<rparr>"

definition hideCenter :: "cross_state \<Rightarrow> cross_state" where
  "hideCenter c =
     c\<lparr>center := (center c)\<lparr>isAnimatingOut := True, isAnimatingIn := False\<rparr>,
       sides := (sides c)\<lparr>isAnimatingOut := False, isVisible := True, isAnimatingIn := True,
                            showDelayRemaining := sidesShowDelay\<rparr>\<rparr>"

text \<open>
  The centre cross and the side crosses are updated by the same block of code, written
  twice in the source; \<open>updateCross\<close> is that block, for either.
\<close>

definition updateCross :: "real \<Rightarrow> 'a cross_part_scheme \<Rightarrow> 'a cross_part_scheme" where
  "updateCross dt p =
     (if isVisible p then
        (let targetLength = (if isAnimatingOut p then 0 else maxLineLength);
             delta = targetLength - currentLength p;
             p1 = (if isAnimatingIn p \<and> showDelayRemaining p > 0
                   then p\<lparr>showDelayRemaining := showDelayRemaining p - delaySlowFactor * dt\<rparr>
                   else p\<lparr>currentLength := currentLength p + delta * cross_smoothing * dt\<rparr>)
         in if isAnimatingOut p1 \<and> \<bar>delta\<bar> < showMinThreshold
            then p1\<lparr>isAnimatingOut := False, isVisible := False, currentLength := 0\<rparr>
            else p1)
      else p)"

definition cross_updateAnimation :: "real \<Rightarrow> cross_state \<Rightarrow> cross_state" where
  "cross_updateAnimation dt c =
     (let sd = updateCross dt (sides c);
          rotationDelta = targetRotation sd - currentRotation sd
      in c\<lparr>center := updateCross dt (center c),
           sides := sd\<lparr>currentRotation := currentRotation sd + rotationDelta * rotationSmoothing * dt\<rparr>\<rparr>)"

definition cross_isInToMiniMode :: "cross_state \<Rightarrow> bool" where
  "cross_isInToMiniMode c \<longleftrightarrow> isAnimatingOut (center c) \<or> isAnimatingIn (sides c)"

definition cross_isInToSliderMode :: "cross_state \<Rightarrow> bool" where
  "cross_isInToSliderMode c \<longleftrightarrow> isAnimatingIn (center c) \<or> isAnimatingOut (sides c)"

section \<open>MiniSliderSystem\<close>

datatype mini_mode = Inactive | ToMini | ToSlider

text \<open>
  \<open>config.motion\<close> and \<open>state\<close> in one record. \<open>lastProgress\<close> starts as \<open>null\<close>, which
  JavaScript reads as 0 in arithmetic; so does \<open>zoomedImageIndex\<close>.
\<close>

record mini_system =
  progressSpeed :: real
  staggerStrength :: real
  mode :: mini_mode
  mini_progress :: real
  zoomedImageIndex :: "int option"
  lastProgress :: "real option"

definition new_MiniSliderSystem :: mini_system where
  "new_MiniSliderSystem =
     \<lparr>progressSpeed = 0.006, staggerStrength = 0.75,
      mode = Inactive, mini_progress = 0, zoomedImageIndex = None, lastProgress = None\<rparr>"

definition num_of :: "'a::zero option \<Rightarrow> 'a" where
  "num_of v = (case v of None \<Rightarrow> 0 | Some x \<Rightarrow> x)"

definition toMini :: "int \<Rightarrow> mini_system \<Rightarrow> mini_system" where
  "toMini zoomedIndex m = m\<lparr>mode := ToMini, mini_progress := 0, zoomedImageIndex := Some zoomedIndex\<rparr>"

definition toSlider :: "mini_system \<Rightarrow> mini_system" where
  "toSlider m = (if mode m = Inactive then m else m\<lparr>mini_progress := 0, mode := ToSlider\<rparr>)"

text \<open>
  A stagger delay is a number or \<open>+Infinity\<close>: with a single image the sequential delay
  divides a positive number by \<open>totalImages - 1 = 0\<close>. With no image at all the distance
  delay divides by \<open>0 * 0\<close>; the only caller passes \<open>this.images.length\<close> from inside a
  loop over \<open>this.images\<close>, so that call does not occur, and the model answers \<open>None\<close>.
\<close>

datatype delay = Finite real | Infinity

definition calculateStaggerDelay :: "mini_system \<Rightarrow> nat \<Rightarrow> nat \<Rightarrow> mini_mode \<Rightarrow> delay option" where
  "calculateStaggerDelay m index totalImages md =
     (if md = ToMini then
        (if totalImages = 0 then None
         else
           (let distance = \<bar>real index - real_of_int (num_of (zoomedImageIndex m))\<bar>
            in Some (Finite (max 0 ((distance powr 1.25 / (real totalImages * real totalImages)) *
                                      staggerStrength m)))))
      else
        (if totalImages = 1 then Some Infinity
         else
           (let normalizedIndex = (real index + 1) / (real totalImages - 1)
            in Some (Finite (normalizedIndex * 0.125)))))"

text \<open>
  \<open>delay / (1 - delay)\<close> is \<open>+Infinity\<close> at \<open>delay = 1\<close>, and then \<open>Math.max(0, p - Infinity)\<close>
  is 0. In the last branch a quotient of two infinities, or one by zero, is not a number:
  \<open>None\<close>.
\<close>

definition calculateImageProgress :: "mini_system \<Rightarrow> nat \<Rightarrow> nat \<Rightarrow> real option" where
  "calculateImageProgress m index totalImages =
     (case (calculateStaggerDelay m index totalImages ToSlider,
            calculateStaggerDelay m index totalImages ToMini) of
        (Some toSliderDelay, Some (Finite toMiniModeDelay)) \<Rightarrow>
          if mode m = ToMini then
            (if toMiniModeDelay = 1 then Some 0
             else
               (let adjustedProgress =
                      max 0 (mini_progress m - toMiniModeDelay / (1 - toMiniModeDelay))
                in Some (min 1 (max 0 adjustedProgress))))
          else if (case toSliderDelay of Infinity \<Rightarrow> True | Finite d \<Rightarrow> mini_progress m - d < 0)
                  \<and> mode m = ToSlider then
            (if toMiniModeDelay = 1 then Some 0
             else Some (- max 0 (num_of (lastProgress m) - toMiniModeDelay / (1 - toMiniModeDelay))))
          else
            (case toSliderDelay of
               Infinity \<Rightarrow> None
             | Finite d \<Rightarrow> if d = 1 then None else Some ((mini_progress m - d) / (1 - d)))
      | _ \<Rightarrow> None)"

definition getProgress :: "mini_system \<Rightarrow> nat \<Rightarrow> nat \<Rightarrow> real option \<times> mini_system" where
  "getProgress m index totalImages =
     (calculateImageProgress m index totalImages,
      if mode m = ToMini then m\<lparr>lastProgress := Some (mini_progress m)\<rparr> else m)"

definition mini_updateAnimation :: "real \<Rightarrow> mini_system \<Rightarrow> mini_system" where
  "mini_updateAnimation dt m =
     (if mode m = Inactive then m
      else
        (let progressDelta = progressSpeed m * dt;
             m1 = m\<lparr>mini_progress := max 0 (min 1 (mini_progress m + progressDelta))\<rparr>
         in if mode m1 = ToSlider
            then m1\<lparr>lastProgress := Some (max 0 (min 1 (num_of (lastProgress m1) + progressDelta)))\<rparr>
            else m1))"

definition isInToMiniMode :: "mini_system \<Rightarrow> bool" where
  "isInToMiniMode m \<longleftrightarrow> mode m = ToMini"

definition isInToSliderMode :: "mini_system \<Rightarrow> bool" where
  "isInToSliderMode m \<longleftrightarrow> mode m = ToSlider"

definition mini_isActive :: "mini_system \<Rightarrow> bool" where
  "mini_isActive m \<longleftrightarrow> mode m \<noteq> Inactive"

definition setInactive :: "mini_system \<Rightarrow> mini_system" where
  "setInactive m = m\<lparr>mode := Inactive, mini_progress := 0\<rparr>"

section \<open>TitleAnimationSystem\<close>

text \<open>
  The titles are DOM elements. Of an element the system reads and writes two style
  properties only: \<open>pointerEvents\<close>, and \<open>transform\<close>, which it writes as a vertical
  percentage and reads back through a regular expression. An element is modelled by what
  that regular expression finds: \<open>Some p\<close> when the transform carries the percentage \<open>p\<close>,
  \<open>None\<close> when it does not match.
\<close>

record title_element =
  transformPercent :: "real option"
  pointerEventsAuto :: bool

datatype exit_direction = Top | Bottom

record title_state =
  currentTitleIndex :: "int option"
  title_isAnimatingIn :: bool
  title_isAnimatingOut :: bool
  title_currentPosition :: real
  title_targetPosition :: real
  exitDirection :: exit_direction
  titleElements :: "title_element list"
  remainigDelay :: real
  showNextIndex :: "int option"

definition smoothing_show :: real where "smoothing_show = 0.085"
definition smoothing_hide :: real where "smoothing_hide = 0.18"
definition showDelay :: real where "showDelay = 0.025"

text \<open>\<open>xs[i]\<close> in JavaScript: \<open>undefined\<close> (here \<open>None\<close>) outside the array.\<close>

definition element_at :: "'a list \<Rightarrow> int \<Rightarrow> 'a option" where
  "element_at xs i = (if 0 \<le> i \<and> i < int (length xs) then Some (xs ! nat i) else None)"

definition set_element :: "'a list \<Rightarrow> int \<Rightarrow> 'a \<Rightarrow> 'a list" where
  "set_element xs i v = (if 0 \<le> i \<and> i < int (length xs) then xs[nat i := v] else xs)"

definition setNextTitle :: "int \<Rightarrow> title_state \<Rightarrow> title_state" where
  "setNextTitle index t = t\<lparr>showNextIndex := Some index\<rparr>"

definition resetNextTitle :: "title_state \<Rightarrow> title_state" where
  "resetNextTitle t = t\<lparr>showNextIndex := None\<rparr>"

text \<open>The part of \<open>showTitle\<close> after the current position has been stored.\<close>

definition startShow :: "int \<Rightarrow> real option \<Rightarrow> title_state \<Rightarrow> title_state" where
  "startShow index delay t =
     (let t1 = t\<lparr>title_isAnimatingOut := False,
                 title_isAnimatingIn := True,
                 currentTitleIndex := Some index,
                 title_targetPosition := 0,
                 remainigDelay := (case delay of Some d \<Rightarrow> d | None \<Rightarrow> showDelay)\<rparr>
      in case element_at (titleElements t1) index of
           Some el \<Rightarrow> t1\<lparr>titleElements :=
                           set_element (titleElements t1) index (el\<lparr>pointerEventsAuto := True\<rparr>)\<rparr>
         | None \<Rightarrow> t1)"

text \<open>Reading \<open>.style\<close> of an element that is not in the list throws a \<open>TypeError\<close>.\<close>

definition showTitle :: "int \<Rightarrow> real option \<Rightarrow> title_state \<Rightarrow> error + title_state" where
  "showTitle index delay t =
     (case currentTitleIndex t of
        Some cur \<Rightarrow>
          (case element_at (titleElements t) cur of
             None \<Rightarrow> Inl TypeError
           | Some currentTitle \<Rightarrow>
               Inr (startShow index delay
                     (t\<lparr>title_currentPosition :=
                          (case transformPercent currentTitle of Some p \<Rightarrow> p | None \<Rightarrow> 100)\<rparr>)))
      | None \<Rightarrow> Inr (startShow index delay (t\<lparr>title_currentPosition := 100\<rparr>)))"

definition hideTitle :: "title_state \<Rightarrow> error + title_state" where
  "hideTitle t =
     (case currentTitleIndex t of
        Some cur \<Rightarrow>
          (case element_at (titleElements t) cur of
             None \<Rightarrow> Inl TypeError
           | Some titleElement \<Rightarrow>
               (let pos = (case transformPercent titleElement of Some p \<Rightarrow> p | None \<Rightarrow> 0);
                    dir = (if pos < 33 then Top else Bottom)
                in Inr (t\<lparr>title_currentPosition := pos,
                           exitDirection := dir,
                           title_targetPosition := (if dir = Top then - 100 else 100),
                           title_isAnimatingOut := True,
                           title_isAnimatingIn := False,
                           remainigDelay := 0,
                           titleElements :=
                             set_element (titleElements t) cur
                               (titleElement\<lparr>pointerEventsAuto := False\<rparr>)\<rparr>)))
      | None \<Rightarrow> Inr t)"

definition title_updateAnimation :: "real \<Rightarrow> title_state \<Rightarrow> error + title_state" where
  "title_updateAnimation dt t =
     (case (if titleElements t = [] then None else currentTitleIndex t) of
        None \<Rightarrow> Inr t
      | Some cur \<Rightarrow>
          (case element_at (titleElements t) cur of
             None \<Rightarrow> Inr t
           | Some currentTitle \<Rightarrow>
               if title_isAnimatingIn t \<and> remainigDelay t > 0
               then Inr (t\<lparr>remainigDelay := remainigDelay t - dt / 1000\<rparr>)
               else
                 (let smoothing = (if title_isAnimatingIn t then smoothing_show else smoothing_hide);
                      delta = title_targetPosition t - title_currentPosition t;
                      change = delta * smoothing * dt;
                      newPosition = title_currentPosition t + change;
                      t1 = t\<lparr>title_currentPosition := newPosition,
                              titleElements :=
                                set_element (titleElements t) cur
                                  (currentTitle\<lparr>transformPercent := Some newPosition\<rparr>)\<rparr>;
                      isVeryNearTarget = (\<bar>delta\<bar> < 0.01);
                      isNearTarget = (\<bar>delta\<bar> < 0.1);
                      t2 = (if isVeryNearTarget then
                              (if title_isAnimatingOut t1
                               then t1\<lparr>title_isAnimatingOut := False,
                                       currentTitleIndex := None,
                                       title_currentPosition := title_targetPosition t1\<rparr>
                               else if title_isAnimatingIn t1
                               then t1\<lparr>title_isAnimatingIn := False,
                                       title_currentPosition := title_targetPosition t1\<rparr>
                               else t1)
                            else t1)
                  in case showNextIndex t2 of
                       Some nxt \<Rightarrow>
                         if title_isAnimatingOut t2 \<and> isNearTarget
                         then
                           (case showTitle nxt (Some 0) (t2\<lparr>currentTitleIndex := None\<rparr>) of
                              Inl e \<Rightarrow> Inl e
                            | Inr t3 \<Rightarrow> Inr (t3\<lparr>showNextIndex := None\<rparr>))
                         else Inr t2
                     | None \<Rightarrow> Inr t2)))"

section \<open>IndexAnimationSystem\<close>

datatype index_style = Snap | Smooth | Clipped

record index_state =
  style :: index_style
  currentIndex :: int
  targetIndex :: int
  snapOffset :: real
  snapProgress :: real
  index_offset :: real
  transitionProgress :: real
  opacity :: real
  lastDirection :: int
  index_isTransitioning :: bool

definition config_height :: real where "config_height = 24"
definition fadeSpeed :: real where "fadeSpeed = 0.12"

definition animationSpeed :: "index_style \<Rightarrow> real" where
  "animationSpeed st = (case st of Snap \<Rightarrow> 0.25 | Smooth \<Rightarrow> 0.005 | Clipped \<Rightarrow> 0.008)"

text \<open>Only the smooth and the clipped style have a \<open>numberSpacing\<close>; it is 24 for both.\<close>

definition numberSpacing :: "index_style \<Rightarrow> real" where
  "numberSpacing st = 24"

definition new_IndexAnimationSystem :: "index_style \<Rightarrow> index_state" where
  "new_IndexAnimationSystem st =
     \<lparr>style = st, currentIndex = 0, targetIndex = 0, snapOffset = 0, snapProgress = 1,
      index_offset = 0, transitionProgress = 1, opacity = 1, lastDirection = 0,
      index_isTransitioning = False\<rparr>"

definition easeOutCubic :: "real \<Rightarrow> real" where
  "easeOutCubic x = 1 - (1 - x) ^ 3"

definition updateSnapAnimation :: "int \<Rightarrow> index_state \<Rightarrow> index_state" where
  "updateSnapAnimation newTargetIndex s =
     (let direction = (if newTargetIndex > targetIndex s then 1 else - 1)
      in s\<lparr>currentIndex := targetIndex s,
           snapProgress := 0,
           snapOffset := config_height * direction\<rparr>)"

definition updateSnapProgress :: "index_state \<Rightarrow> index_state" where
  "updateSnapProgress s =
     (if snapProgress s < 1 then
        (let p = min 1 (snapProgress s + animationSpeed Snap);
             easeOutQuad = 1 - (1 - p) ^ 2
         in s\<lparr>snapProgress := p, snapOffset := snapOffset s * (1 - easeOutQuad)\<rparr>)
      else s)"

definition updateSmoothOrClippedAnimation :: "int \<Rightarrow> index_state \<Rightarrow> index_state" where
  "updateSmoothOrClippedAnimation newTargetIndex s =
     (let direction = (if newTargetIndex > targetIndex s then 1 else - 1);
          s1 = s\<lparr>currentIndex := targetIndex s,
                  transitionProgress := 0,
                  index_offset := numberSpacing (style s) * real_of_int direction,
                  lastDirection := direction,
                  index_isTransitioning := True\<rparr>
      in if style s = Smooth then s1\<lparr>opacity := 0\<rparr> else s1)"

definition updateSmoothOrClippedProgress :: "index_state \<Rightarrow> index_state" where
  "updateSmoothOrClippedProgress s =
     (if \<not> index_isTransitioning s then s
      else if transitionProgress s < 1 then
        (let tp = min 1 (transitionProgress s + animationSpeed (style s));
             progress = easeOutCubic tp;
             s1 = s\<lparr>transitionProgress := tp, index_offset := index_offset s * (1 - progress)\<rparr>
         in if style s = Smooth
            then (if tp < fadeSpeed then s1\<lparr>opacity := tp / fadeSpeed\<rparr> else s1\<lparr>opacity := 1\<rparr>)
            else s1)
      else
        (let s1 = s\<lparr>index_isTransitioning := False, index_offset := 0\<rparr>
         in if style s = Smooth then s1\<lparr>opacity := 1\<rparr> else s1))"

text \<open>
  The slot index under a scroll position. Past the first transition point the source
  divides by \<open>containerWidth + containerGap\<close>; when that is 0 the quotient, and with it the
  index, is \<open>Infinity\<close> or \<open>NaN\<close>, which is not a slot index: \<open>None\<close>.
\<close>

definition newTargetIndex :: "real \<Rightarrow> real \<Rightarrow> real \<Rightarrow> int option" where
  "newTargetIndex scrollPosition containerWidth containerGap =
     (let transitionWidth = containerWidth + containerGap;
          halfGap = containerGap / 2;
          firstTransitionPoint = containerWidth / 2 + halfGap
      in if scrollPosition \<ge> firstTransitionPoint then
           (let distanceAfterFirst = scrollPosition - firstTransitionPoint
            in if transitionWidth = 0 then None
               else Some (1 + \<lfloor>distanceAfterFirst / transitionWidth\<rfloor>))
         else Some 0)"

definition startTransition :: "int \<Rightarrow> index_state \<Rightarrow> index_state" where
  "startTransition new s =
     (if style s = Snap then updateSnapAnimation new s
      else updateSmoothOrClippedAnimation new s)\<lparr>targetIndex := new\<rparr>"

definition updateProgress :: "index_state \<Rightarrow> index_state" where
  "updateProgress s =
     (if style s = Snap then updateSnapProgress s else updateSmoothOrClippedProgress s)"

definition updateIndex :: "real \<Rightarrow> real \<Rightarrow> real \<Rightarrow> index_state \<Rightarrow> index_state option" where
  "updateIndex scrollPosition containerWidth containerGap s =
     (case newTargetIndex scrollPosition containerWidth containerGap of
        None \<Rightarrow> None
      | Some new \<Rightarrow>
          Some (updateProgress (if new \<noteq> targetIndex s then startTransition new s else s)))"

section \<open>ParallaxCarousel\<close>

text \<open>
  Of the orchestrator the model keeps the scroll fields of \<open>this.state\<close>, the part of
  \<open>this.config\<close> that the physics and the navigation read, the number of loaded images,
  the viewport width, and the five animation systems. Drawing on the canvas, the
  rectangle caches and the user callbacks are left out. \<open>Math.pow(damping, dt)\<close> is
  \<open>damping powr dt\<close>, which is what JavaScript computes for the positive damping
  constants the configuration is meant to hold; likewise the tick's
  \<open>deltaTime / timingNormalizer\<close> is the quotient of reals, for a normalizer that is not 0.
\<close>

record scroll_state =
  currentPosition :: real
  smoothPosition :: real
  velocity :: real
  minScroll :: real
  maxScroll :: real
  targetPosition :: "real option"

record animations_config =
  timingNormalizer :: real
  wheelSensitivity :: real
  minScrollThreshold :: real
  baseDamping :: real
  edgeDamping :: real
  edgeZone :: real
  maxVelocity :: real
  minVelocity :: real
  positionSmoothing :: real

definition defaultAnimations :: animations_config where
  "defaultAnimations =
     \<lparr>timingNormalizer = 16, wheelSensitivity = 0.65, minScrollThreshold = 0.0005,
      baseDamping = 0.8, edgeDamping = 0.7, edgeZone = 0.5, maxVelocity = 400,
      minVelocity = 0.001, positionSmoothing = 0.075\<rparr>"

datatype log_entry = InvalidImageIndex int

record carousel =
  state :: scroll_state
  animations :: animations_config
  showIndex :: bool
  showTitles :: bool
  maskWidth :: real
  maskGap :: real
  innerWidth :: real
  imagesLength :: nat
  indexAnimation :: index_state
  zoomSystem :: zoom_state
  miniSliderSystem :: mini_system
  crossAnimation :: cross_state
  titleAnimation :: "title_state option"

definition calculateBoundaries :: "carousel \<Rightarrow> carousel" where
  "calculateBoundaries c =
     (let totalWidth = (real (imagesLength c) - 1) * (maskWidth c + maskGap c);
          s1 = (state c)\<lparr>minScroll := 0, maxScroll := totalWidth\<rparr>;
          s2 = s1\<lparr>currentPosition := max (minScroll s1) (min (maxScroll s1) (currentPosition s1))\<rparr>
      in c\<lparr>state := s2\<lparr>smoothPosition := currentPosition s2\<rparr>\<rparr>)"

definition expDecay :: "real \<Rightarrow> real \<Rightarrow> real \<Rightarrow> real \<Rightarrow> real" where
  "expDecay start end decay progress = start + (end - start) * (1 - exp (- decay * progress))"

definition checkScroll :: "carousel \<Rightarrow> real \<Rightarrow> bool" where
  "checkScroll c delta \<longleftrightarrow> \<bar>delta\<bar> > minScrollThreshold (animations c)"

definition addVelocity :: "real \<Rightarrow> carousel \<Rightarrow> carousel" where
  "addVelocity amount c =
     c\<lparr>state := (state c)\<lparr>velocity :=
                    max (- maxVelocity (animations c))
                      (min (maxVelocity (animations c)) (velocity (state c) + amount))\<rparr>\<rparr>"

definition updateTargetPosition :: "int \<Rightarrow> carousel \<Rightarrow> carousel" where
  "updateTargetPosition imgIndex c =
     (let viewportCenter = innerWidth c / 2;
          maskX = viewportCenter - maskWidth c / 2
                  + real_of_int imgIndex * (maskWidth c + maskGap c) - smoothPosition (state c);
          centeredX = viewportCenter - maskWidth c / 2;
          moveDistance = maskX - centeredX
      in c\<lparr>state := (state c)\<lparr>targetPosition := Some (currentPosition (state c) + moveDistance)\<rparr>\<rparr>)"

text \<open>
  The title system exists only when titles are enabled; every use of it in the source is
  guarded by \<open>this.config.features.showTitles && this.titleAnimation\<close>.
\<close>

definition withTitle :: "(title_state \<Rightarrow> error + title_state) \<Rightarrow> carousel \<Rightarrow> error + carousel" where
  "withTitle f c =
     (case (if showTitles c then titleAnimation c else None) of
        None \<Rightarrow> Inr c
      | Some t \<Rightarrow> (case f t of Inl e \<Rightarrow> Inl e | Inr t' \<Rightarrow> Inr (c\<lparr>titleAnimation := Some t'\<rparr>)))"

definition handleWheel :: "real \<Rightarrow> real \<Rightarrow> carousel \<Rightarrow> error + carousel" where
  "handleWheel deltaX deltaY c =
     (case withTitle (\<lambda>t. Inr (resetNextTitle t)) c of
        Inl e \<Rightarrow> Inl e
      | Inr c0 \<Rightarrow>
          (let c1 = c0\<lparr>state := (state c0)\<lparr>targetPosition := None\<rparr>\<rparr>
           in if zoom_isActive (zoomSystem c1) then
                (case (if \<not> isZoomingOut (zoomSystem c1)
                          \<and> (checkScroll c1 deltaY \<or> checkScroll c1 deltaX)
                       then withTitle hideTitle
                              (c1\<lparr>zoomSystem := zoomOut (zoomSystem c1),
                                  miniSliderSystem := toSlider (miniSliderSystem c1)\<rparr>)
                       else Inr c1) of
                   Inl e \<Rightarrow> Inl e
                 | Inr c2 \<Rightarrow>
                     Inr (if isZoomingOut (zoomSystem c2)
                          then addVelocity ((deltaX + deltaY) * wheelSensitivity (animations c2)) c2
                          else c2))
              else Inr (addVelocity ((deltaX + deltaY) * wheelSensitivity (animations c1)) c1)))"

text \<open>
  \<open>updateSliderMotion\<close> reads \<open>this.config.animations\<close> and works on \<open>this.state\<close> alone; it
  is written here as three blocks on that state. The first: with a target set, snap to it
  when it is closer than 0.1, otherwise set the velocity from the remaining distance.
\<close>

definition seekTarget :: "animations_config \<Rightarrow> scroll_state \<Rightarrow> scroll_state" where
  "seekTarget cfg s =
     (case targetPosition s of
        None \<Rightarrow> s
      | Some target \<Rightarrow>
          (let distanceToTarget = target - currentPosition s
           in if \<bar>distanceToTarget\<bar> < 0.1
              then s\<lparr>currentPosition := target, targetPosition := None, velocity := 0\<rparr>
              else s\<lparr>velocity := positionSmoothing cfg * distanceToTarget\<rparr>))"

text \<open>
  The second block: the damping factor, given the distances measured at the start of the
  tick. The edge factor divides by the edge zone; when that is 0 the branch is entered
  with a negative distance only, JavaScript's quotient is \<open>-Infinity\<close> and
  \<open>Math.max(0, -Infinity)\<close> is 0.
\<close>

definition dampingFor :: "animations_config \<Rightarrow> real \<Rightarrow> real \<Rightarrow> real \<Rightarrow> real \<Rightarrow> real" where
  "dampingFor cfg distanceToMin distanceToMax zone v =
     (if (distanceToMin < zone \<and> v < 0) \<or> (distanceToMax < zone \<and> v > 0) then
        (let edgeDistance = (if v < 0 then distanceToMin else distanceToMax);
             edgeFactor = (if zone = 0 then 0 else max 0 (edgeDistance / zone))
         in expDecay (edgeDamping cfg) (baseDamping cfg) 1 edgeFactor)
      else baseDamping cfg)"

text \<open>The third block: integrate the velocity and clamp the position.\<close>

definition integrate :: "animations_config \<Rightarrow> real \<Rightarrow> scroll_state \<Rightarrow> scroll_state" where
  "integrate cfg dt s =
     (if \<bar>velocity s\<bar> > minVelocity cfg \<or> targetPosition s \<noteq> None then
        (let newPosition = currentPosition s + velocity s * dt
         in if newPosition < minScroll s then
              s\<lparr>velocity := 0, targetPosition := None, currentPosition := minScroll s\<rparr>
            else if newPosition > maxScroll s then
              s\<lparr>velocity := 0, targetPosition := None, currentPosition := maxScroll s\<rparr>
            else s\<lparr>currentPosition := newPosition\<rparr>)
      else s)"

definition sliderMotion :: "animations_config \<Rightarrow> real \<Rightarrow> scroll_state \<Rightarrow> scroll_state" where
  "sliderMotion cfg dt s =
     (let distanceToMin = currentPosition s - minScroll s;
          distanceToMax = maxScroll s - currentPosition s;
          range = maxScroll s - minScroll s;
          zone = range * edgeZone cfg;
          s1 = seekTarget cfg s;
          damping = dampingFor cfg distanceToMin distanceToMax zone (velocity s1);
          s2 = s1\<lparr>velocity := velocity s1 * damping powr dt\<rparr>;
          s3 = integrate cfg dt s2
      in s3\<lparr>smoothPosition :=
               expDecay (smoothPosition s3) (currentPosition s3) (positionSmoothing cfg) dt\<rparr>)"

definition updateSliderMotion :: "real \<Rightarrow> carousel \<Rightarrow> carousel" where
  "updateSliderMotion dt c = c\<lparr>state := sliderMotion (animations c) dt (state c)\<rparr>"

definition updateMotion :: "real \<Rightarrow> carousel \<Rightarrow> error + carousel" where
  "updateMotion deltaTime c =
     (let dt = deltaTime / timingNormalizer (animations c);
          c1 = (if zoom_isActive (zoomSystem c)
                then c\<lparr>zoomSystem := zoom_updateAnimation dt (zoomSystem c),
                       miniSliderSystem := mini_updateAnimation dt (miniSliderSystem c)\<rparr>
                else if mini_isActive (miniSliderSystem c)
                then c\<lparr>miniSliderSystem := setInactive (miniSliderSystem c)\<rparr>
                else c);
          c2 = (if isInToMiniMode (miniSliderSystem c1) \<and> \<not> cross_isInToMiniMode (crossAnimation c1)
                then c1\<lparr>crossAnimation := hideCenter (crossAnimation c1)\<rparr>
                else if isInToSliderMode (miniSliderSystem c1)
                        \<and> \<not> cross_isInToSliderMode (crossAnimation c1)
                then c1\<lparr>crossAnimation := showCenter (crossAnimation c1)\<rparr>
                else c1);
          c3 = c2\<lparr>crossAnimation := cross_updateAnimation dt (crossAnimation c2)\<rparr>
      in case withTitle (title_updateAnimation dt) c3 of
           Inl e \<Rightarrow> Inl e
         | Inr c4 \<Rightarrow> Inr (updateSliderMotion dt c4))"

text \<open>
  \<open>render\<close>, as far as it changes the animation systems: nothing with no image loaded;
  otherwise drawing the mini slider stores the progress it reads, and the index counter
  is updated from the smoothed position when the index feature is on. \<open>None\<close> when the
  index counter's slot index is not a number.
\<close>

definition render :: "carousel \<Rightarrow> carousel option" where
  "render c =
     (if imagesLength c = 0 then Some c
      else
        (let c1 = (if mini_isActive (miniSliderSystem c)
                   then c\<lparr>miniSliderSystem := snd (getProgress (miniSliderSystem c) 0 (imagesLength c))\<rparr>
                   else c)
         in if showIndex c1 then
              (case updateIndex (smoothPosition (state c1)) (maskWidth c1) (maskGap c1)
                      (indexAnimation c1) of
                 None \<Rightarrow> None
               | Some i \<Rightarrow> Some (c1\<lparr>indexAnimation := i\<rparr>))
            else Some c1))"

text \<open>\<open>goToImage\<close> returns what it wrote to the console, and the carousel.\<close>

definition goToImage :: "int \<Rightarrow> carousel \<Rightarrow> log_entry list \<times> carousel" where
  "goToImage index c =
     (if index < 0 \<or> index \<ge> int (imagesLength c) then ([InvalidImageIndex index], c)
      else
        (let c1 = updateTargetPosition index c
         in if zoom_isActive (zoomSystem c1)
            then ([], c1\<lparr>zoomSystem := transitionToImage index (zoomSystem c1)\<rparr>)
            else ([], c1)))"

text \<open>
  The carousel as \<open>init\<close> leaves it with \<open>n\<close> images loaded, the default configuration and
  a viewport of 1728 by 1000 pixels, on which the dimension scale is 1: masks 378 wide,
  30 apart. The title elements start hidden below, at 100 percent.
\<close>

definition new_TitleAnimationSystem :: "nat \<Rightarrow> title_state" where
  "new_TitleAnimationSystem n =
     \<lparr>currentTitleIndex = None, title_isAnimatingIn = False, title_isAnimatingOut = False,
      title_currentPosition = 100, title_targetPosition = 100, exitDirection = Bottom,
      titleElements = replicate n \<lparr>transformPercent = Some 100, pointerEventsAuto = False\<rparr>,
      remainigDelay = 0, showNextIndex = None\<rparr>"

definition initialCarousel :: "nat \<Rightarrow> carousel" where
  "initialCarousel n =
     calculateBoundaries
       \<lparr>state = \<lparr>currentPosition = 0, smoothPosition = 0, velocity = 0, minScroll = 0,
                 maxScroll = 0, targetPosition = None\<rparr>,
        animations = defaultAnimations,
        showIndex = True, showTitles = True,
        maskWidth = 378, maskGap = 30, innerWidth = 1728, imagesLength = n,
        indexAnimation = new_IndexAnimationSystem Clipped,
        zoomSystem = new_ImageZoomSystem n,
        miniSliderSystem = new_MiniSliderSystem,
        crossAnimation = showCenter new_CrossAnimationSystem,
        titleAnimation = Some (new_TitleAnimationSystem n)\<rparr>"

section \<open>The specification's slot index, and example states\<close>

text \<open>
  The slot index as the specification words it: slot boundaries at
  \<open>width / 2 + gap / 2\<close>, then every \<open>width + gap\<close>.
\<close>

definition specTargetIndex :: "real \<Rightarrow> real \<Rightarrow> real \<Rightarrow> int" where
  "specTargetIndex position width gap =
     (if position < width / 2 + gap / 2 then 0
      else 1 + \<lfloor>(position - (width / 2 + gap / 2)) / (width + gap)\<rfloor>)"

text \<open>
  Four slots, a sequential transition from slot 0 to slot 1 one tick under way: slot 0 is
  leaving to the left, slot 1 is arriving, slots 2 and 3 wait on the right.
\<close>

definition exampleStage :: stage_state where
  "exampleStage =
     \<lparr>stages =
        [\<lparr>imageIndex = 0, image_part = \<lparr>offset = - (1 / 5), targetOffset = - (1 / 2)\<rparr>,
          mask_part = \<lparr>offset = - (2 / 5), targetOffset = - 1\<rparr>\<rparr>,
         \<lparr>imageIndex = 1, image_part = \<lparr>offset = 3 / 10, targetOffset = 0\<rparr>,
          mask_part = \<lparr>offset = 3 / 5, targetOffset = 0\<rparr>\<rparr>,
         \<lparr>imageIndex = 2, image_part = \<lparr>offset = 1 / 2, targetOffset = 1 / 2\<rparr>,
          mask_part = \<lparr>offset = 1, targetOffset = 1\<rparr>\<rparr>,
         \<lparr>imageIndex = 3, image_part = \<lparr>offset = 1 / 2, targetOffset = 1 / 2\<rparr>,
          mask_part = \<lparr>offset = 1, targetOffset = 1\<rparr>\<rparr>],
      renderOrder = [1, 0, 2, 3], stage_currentIndex = Some 1,
      stage_isTransitioning = True, isJumpTransition = False\<rparr>"

text \<open>A zoom on slot 1 of three, half way in.\<close>

definition exampleZoom :: zoom_state where
  "exampleZoom = (zoomIn 1 (new_ImageZoomSystem 3))\<lparr>zoom_progress := 1 / 2\<rparr>"

text \<open>The mini slider half way into the thumbnail strip, slot 0 focused.\<close>

definition exampleMini :: mini_system where
  "exampleMini = (toMini 0 new_MiniSliderSystem)\<lparr>mini_progress := 1 / 2\<rparr>"

text \<open>The same with a stagger strength of 8, at the start of the transition.\<close>

definition strongStagger :: mini_system where
  "strongStagger = toMini 0 (new_MiniSliderSystem\<lparr>staggerStrength := 8\<rparr>)"

text \<open>The crosses after the centre has been hidden: the side crosses are visible.\<close>

definition sidesShown :: cross_state where
  "sidesShown = hideCenter new_CrossAnimationSystem"


text \<open>
  Three images, the position on the second slot and the smoothed position, which lags,
  at 300.
\<close>

definition scrolledToSecond :: carousel where
  "scrolledToSecond =
     (initialCarousel 3)\<lparr>state := (state (initialCarousel 3))\<lparr>currentPosition := 408,
                                                               smoothPosition := 300\<rparr>\<rparr>"

text \<open>The same with the snap style of the index counter.\<close>

definition scrolledSnap :: carousel where
  "scrolledSnap = scrolledToSecond\<lparr>indexAnimation := new_IndexAnimationSystem Snap\<rparr>"



text \<open>The zoom has gone inactive while the mini slider is still on its way back.\<close>

definition exampleStale :: carousel where
  "exampleStale = (initialCarousel 2)\<lparr>miniSliderSystem := toSlider (toMini 1 new_MiniSliderSystem)\<rparr>"

section \<open>Properties of the stage transition\<close>

lemma length_transitionTo: "length (stages (transitionTo newIndex s)) = length (stages s)"
  by (simp add: transitionTo_def updateRenderOrder_def Let_def)

lemma stages_jump_nth:
  assumes "Some newIndex \<noteq> stage_currentIndex s" and "idx < length (stages s)"
  shows "stages (stage_jumpToImage newIndex s) ! idx =
           jumpStage newIndex (stage_currentIndex s) (idx, stages s ! idx)"
  using assms
  by (simp add: stage_jumpToImage_def transitionTo_def updateRenderOrder_def Let_def
      nth_enumerate_eq)

text \<open>
  Claim C2. A jump to a slot other than the centred one leaves every stage that is
  neither the new centre nor the old one with offset equal to target offset, for image
  and mask; the new centre keeps its offsets and gets target 0; the old centre keeps its
  offsets and gets the target on the side away from the new centre; no stage is added or
  removed; and the jump flag is clear again afterwards.
\<close>

theorem jump_snaps_all_but_endpoints:
  assumes "Some newIndex \<noteq> stage_currentIndex s"
  shows "length (stages (stage_jumpToImage newIndex s)) = length (stages s) \<and>
         \<not> isJumpTransition (stage_jumpToImage newIndex s) \<and>
         stage_currentIndex (stage_jumpToImage newIndex s) = Some newIndex \<and>
         (\<forall>idx < length (stages s).
            let old = stages s ! idx; new = stages (stage_jumpToImage newIndex s) ! idx
            in if int idx = newIndex then
                 offset (image_part new) = offset (image_part old) \<and>
                 offset (mask_part new) = offset (mask_part old) \<and>
                 targetOffset (image_part new) = 0 \<and> targetOffset (mask_part new) = 0
               else if Some (int idx) = stage_currentIndex s then
                 offset (image_part new) = offset (image_part old) \<and>
                 offset (mask_part new) = offset (mask_part old) \<and>
                 targetOffset (image_part new) = (if newIndex > int idx then - 0.5 else 0.5) \<and>
                 targetOffset (mask_part new) = (if newIndex > int idx then - 1 else 1)
               else
                 offset (image_part new) = targetOffset (image_part new) \<and>
                 offset (mask_part new) = targetOffset (mask_part new))"
proof -
  have len: "length (stages (stage_jumpToImage newIndex s)) = length (stages s)"
    using assms by (simp add: stage_jumpToImage_def length_transitionTo)
  have flag: "\<not> isJumpTransition (stage_jumpToImage newIndex s)"
    using assms by (simp add: stage_jumpToImage_def transitionTo_def)
  have cur: "stage_currentIndex (stage_jumpToImage newIndex s) = Some newIndex"
    using assms
    by (simp add: stage_jumpToImage_def transitionTo_def updateRenderOrder_def Let_def)
  have each: "\<forall>idx < length (stages s).
            let old = stages s ! idx; new = stages (stage_jumpToImage newIndex s) ! idx
            in if int idx = newIndex then
                 offset (image_part new) = offset (image_part old) \<and>
                 offset (mask_part new) = offset (mask_part old) \<and>
                 targetOffset (image_part new) = 0 \<and> targetOffset (mask_part new) = 0
               else if Some (int idx) = stage_currentIndex s then
                 offset (image_part new) = offset (image_part old) \<and>
                 offset (mask_part new) = offset (mask_part old) \<and>
                 targetOffset (image_part new) = (if newIndex > int idx then - 0.5 else 0.5) \<and>
                 targetOffset (mask_part new) = (if newIndex > int idx then - 1 else 1)
               else
                 offset (image_part new) = targetOffset (image_part new) \<and>
                 offset (mask_part new) = targetOffset (mask_part new)"
    using assms by (simp add: stages_jump_nth jumpStage_def Let_def)
  from len flag cur each show ?thesis by blast
qed

text \<open>
  On the example, a jump from slot 1 to slot 3: slot 0 was at \<open>- 1/5\<close> and slot 2 on the
  right at \<open>1/2\<close>; both are at rest on the left at once. Slot 1, the old centre, stays at
  \<open>3/10\<close> and is sent left.
\<close>

theorem jump_snaps_all_but_endpoints_witness:
  "Some 3 \<noteq> stage_currentIndex exampleStage \<and>
   \<not> isJumpTransition (stage_jumpToImage 3 exampleStage) \<and>
   offset (image_part (stages (stage_jumpToImage 3 exampleStage) ! 0)) = - (1 / 2) \<and>
   targetOffset (image_part (stages (stage_jumpToImage 3 exampleStage) ! 0)) = - (1 / 2) \<and>
   offset (image_part (stages (stage_jumpToImage 3 exampleStage) ! 2)) = - (1 / 2) \<and>
   targetOffset (image_part (stages (stage_jumpToImage 3 exampleStage) ! 2)) = - (1 / 2) \<and>
   offset (image_part (stages (stage_jumpToImage 3 exampleStage) ! 1)) = 3 / 10 \<and>
   targetOffset (image_part (stages (stage_jumpToImage 3 exampleStage) ! 1)) = - (1 / 2) \<and>
   offset (image_part (stages (stage_jumpToImage 3 exampleStage) ! 3)) = 1 / 2 \<and>
   targetOffset (image_part (stages (stage_jumpToImage 3 exampleStage) ! 3)) = 0"
  using jump_snaps_all_but_endpoints [of 3 exampleStage]
  by (simp add: exampleStage_def stage_jumpToImage_def transitionTo_def updateRenderOrder_def
      jumpStage_def Let_def)

section \<open>Properties of the zoom\<close>

text \<open>
  Claim C9. \<open>zoomOut\<close> sets \<open>isZoomingOut\<close>, clears \<open>isZoomingIn\<close> and changes nothing else:
  progress, image index, activity and the whole stage system are as before. So the first
  tick of the exit closes in on 0 from the progress the entry had reached.
\<close>

theorem zoomOut_changes_flags_only:
  "zoomOut z = z\<lparr>isZoomingOut := True, isZoomingIn := False\<rparr> \<and>
   isZoomingOut (zoomOut z) \<and> \<not> isZoomingIn (zoomOut z) \<and>
   zoom_progress (zoomOut z) = zoom_progress z \<and>
   zoom_imageIndex (zoomOut z) = zoom_imageIndex z \<and>
   zoom_isActive (zoomOut z) = zoom_isActive z \<and>
   stageSystem (zoomOut z) = stageSystem z \<and>
   (zoom_isActive z \<longrightarrow>
      zoom_progress (zoom_updateAnimation dt (zoomOut z)) =
        zoom_progress z + (0 - zoom_progress z) * transitionSmoothing * (dt * 0.8))"
  by (simp add: zoomOut_def zoom_updateAnimation_def Let_def)

theorem zoomOut_changes_flags_only_witness:
  "zoom_isActive exampleZoom \<and> isZoomingIn exampleZoom \<and>
   zoom_progress (zoomOut exampleZoom) = 1 / 2 \<and>
   zoom_progress (zoom_updateAnimation 1 (zoomOut exampleZoom)) = 1 / 2 - 1 / 2 * (13 / 100) * (4 / 5)"
proof -
  have active: "zoom_isActive exampleZoom" and entering: "isZoomingIn exampleZoom"
    and half: "zoom_progress exampleZoom = 1 / 2"
    by (simp_all add: exampleZoom_def zoomIn_def)
  from zoomOut_changes_flags_only [of exampleZoom 1] active
  have "zoom_progress (zoomOut exampleZoom) = zoom_progress exampleZoom"
    and "zoom_progress (zoom_updateAnimation 1 (zoomOut exampleZoom)) =
           zoom_progress exampleZoom + (0 - zoom_progress exampleZoom) * transitionSmoothing * (1 * 0.8)"
    by blast+
  then show ?thesis
    using active entering by (simp add: half transitionSmoothing_def)
qed

section \<open>Properties of the side crosses\<close>

lemma rotation_closes_in:
  "currentRotation (sides (cross_updateAnimation dt c)) =
     currentRotation (sides c) +
       (targetRotation (sides c) - currentRotation (sides c)) * rotationSmoothing * dt \<and>
   targetRotation (sides (cross_updateAnimation dt c)) = targetRotation (sides c)"
  by (simp add: cross_updateAnimation_def updateCross_def Let_def)

text \<open>
  Claim C7, as the code has it. \<open>rotateSideCrosses\<close> adds a quarter turn times the
  direction to the target rotation when the side crosses are visible, and does nothing
  when they are not. \<open>resetRotation\<close> sets current and target rotation to 0. Every tick
  moves the current rotation towards the target by proportional closing, visible or not,
  and leaves the target alone.
\<close>

theorem side_rotation:
  "(isVisible (sides c) \<longrightarrow>
      targetRotation (sides (rotateSideCrosses d c)) = targetRotation (sides c) + d * (pi / 2)) \<and>
   (\<not> isVisible (sides c) \<longrightarrow> rotateSideCrosses d c = c) \<and>
   currentRotation (sides (resetRotation c)) = 0 \<and>
   targetRotation (sides (resetRotation c)) = 0 \<and>
   currentRotation (sides (cross_updateAnimation dt c)) =
     currentRotation (sides c) +
       (targetRotation (sides c) - currentRotation (sides c)) * rotationSmoothing * dt \<and>
   targetRotation (sides (cross_updateAnimation dt c)) = targetRotation (sides c)"
  using rotation_closes_in [of dt c]
  by (simp add: rotateSideCrosses_def resetRotation_def)

theorem side_rotation_witness:
  "isVisible (sides sidesShown) \<and>
   targetRotation (sides (rotateSideCrosses (- 1) sidesShown)) = - (pi / 2) \<and>
   \<not> isVisible (sides new_CrossAnimationSystem) \<and>
   rotateSideCrosses 1 new_CrossAnimationSystem = new_CrossAnimationSystem \<and>
   currentRotation (sides (resetRotation sidesShown)) = 0 \<and>
   targetRotation (sides (cross_updateAnimation 2 sidesShown)) = 0"
proof -
  have shown: "isVisible (sides sidesShown)" and zero: "targetRotation (sides sidesShown) = 0"
    by (simp_all add: sidesShown_def hideCenter_def new_CrossAnimationSystem_def)
  have hidden: "\<not> isVisible (sides new_CrossAnimationSystem)"
    by (simp add: new_CrossAnimationSystem_def)
  from side_rotation [of sidesShown "- 1" 2] shown
  have turned: "targetRotation (sides (rotateSideCrosses (- 1) sidesShown)) =
                  targetRotation (sides sidesShown) + - 1 * (pi / 2)"
    and reset: "currentRotation (sides (resetRotation sidesShown)) = 0"
    and kept: "targetRotation (sides (cross_updateAnimation 2 sidesShown)) =
                 targetRotation (sides sidesShown)"
    by blast+
  from side_rotation [of new_CrossAnimationSystem 1 2] hidden
  have ignored: "rotateSideCrosses 1 new_CrossAnimationSystem = new_CrossAnimationSystem"
    by blast
  show ?thesis
    using shown hidden ignored reset turned kept by (simp add: zero)
qed

text \<open>
  The claim as stated fails on a fresh system, whose side crosses are hidden: the call
  leaves the target rotation at 0.
\<close>

theorem rotate_hidden_sides_counterexample:
  "targetRotation (sides (rotateSideCrosses 1 new_CrossAnimationSystem)) \<noteq>
     targetRotation (sides new_CrossAnimationSystem) + 1 * (pi / 2)"
  by (simp add: rotateSideCrosses_def new_CrossAnimationSystem_def)

section \<open>Properties of the mini slider's stagger\<close>

lemma focused_progress:
  assumes "mode m = ToMini" "zoomedImageIndex m = Some (int f)" "0 < n"
  shows "calculateImageProgress m f n = Some (min 1 (max 0 (mini_progress m)))"
  using assms
  by (simp add: calculateImageProgress_def calculateStaggerDelay_def num_of_def Let_def)

lemma item_progress:
  assumes "mode m = ToMini" "0 < n"
    and d: "d = max 0 ((\<bar>real i - real_of_int (num_of (zoomedImageIndex m))\<bar> powr 1.25
                          / (real n * real n)) * staggerStrength m)"
  shows "calculateImageProgress m i n =
           (if d = 1 then Some 0
            else Some (min 1 (max 0 (max 0 (mini_progress m - d / (1 - d))))))"
  using assms
  by (simp add: calculateImageProgress_def calculateStaggerDelay_def Let_def)

text \<open>
  The delay stays below 1 for every stagger strength up to 1, the shipped 0.75 among
  them, when the item and the focused slot are both among the \<open>n\<close> images.
\<close>

lemma delay_at_most_one:
  assumes "i < n" "f < n" "0 \<le> s" "s \<le> 1"
  shows "(\<bar>real i - real f\<bar> powr 1.25 / (real n * real n)) * s \<le> 1"
proof -
  have n: "1 \<le> real n" using assms(1) by simp
  have "\<bar>real i - real f\<bar> \<le> real n" using assms by auto
  then have "\<bar>real i - real f\<bar> powr 1.25 \<le> real n powr 1.25"
    by (intro powr_mono2) auto
  also have "\<dots> \<le> real n powr 2" using n by (intro powr_mono) auto
  also have "\<dots> = real n * real n" using n by (simp add: power2_eq_square)
  finally have "\<bar>real i - real f\<bar> powr 1.25 / (real n * real n) \<le> 1" using n by simp
  moreover have "0 \<le> \<bar>real i - real f\<bar> powr 1.25 / (real n * real n)" by simp
  ultimately show ?thesis using assms(3,4) by (meson mult_le_one)
qed

text \<open>
  Claim C5, as the code has it. In \<open>toMini\<close> mode, with at least one image and the focused
  slot \<open>f\<close>, an item \<open>i\<close> whose delay \<open>(|i - f| ^ 1.25 / n\<^sup>2) * staggerStrength\<close> is at
  most 1 never has more effective progress than the focused item; so when it is at 1,
  the focused item is at 1 as well. The farthest item is one such \<open>i\<close>.
\<close>

theorem stagger_far_item_not_before_focused:
  assumes "mode m = ToMini" and "zoomedImageIndex m = Some (int f)" and "0 < n"
    and "(\<bar>real i - real f\<bar> powr 1.25 / (real n * real n)) * staggerStrength m \<le> 1"
  shows "\<exists>pi pf. calculateImageProgress m i n = Some pi \<and>
                 calculateImageProgress m f n = Some pf \<and>
                 pi \<le> pf \<and> (pi = 1 \<longrightarrow> pf = 1)"
proof -
  define d where
    "d = max 0 ((\<bar>real i - real f\<bar> powr 1.25 / (real n * real n)) * staggerStrength m)"
  have d01: "0 \<le> d" "d \<le> 1" using assms(4) by (simp_all add: d_def)
  have pf: "calculateImageProgress m f n = Some (min 1 (max 0 (mini_progress m)))"
    using assms(1-3) by (rule focused_progress)
  have pi: "calculateImageProgress m i n =
           (if d = 1 then Some 0
            else Some (min 1 (max 0 (max 0 (mini_progress m - d / (1 - d))))))"
    using assms(1,3) by (rule item_progress) (simp add: d_def assms(2) num_of_def)
  show ?thesis
  proof (cases "d = 1")
    case True
    then show ?thesis using pf pi by auto
  next
    case False
    then have "d < 1" using d01 by simp
    then have "0 \<le> d / (1 - d)" using d01 by simp
    then have "min 1 (max 0 (max 0 (mini_progress m - d / (1 - d))))
                 \<le> min 1 (max 0 (mini_progress m))"
      by (auto simp: min_def max_def)
    then show ?thesis using pf pi False by auto
  qed
qed

text \<open>
  Two images, slot 0 focused, the shipped strength. Half way, slot 1 is at \<open>7/26\<close> and
  the focused slot at \<open>1/2\<close>. Slot 1 would be at 1 only at a shared progress of \<open>16/13\<close>,
  where the focused slot is at 1 too.
\<close>

theorem stagger_far_item_not_before_focused_witness:
  "mode exampleMini = ToMini \<and> zoomedImageIndex exampleMini = Some (int 0) \<and> (0::nat) < 2 \<and>
   (\<bar>real 1 - real 0\<bar> powr 1.25 / (real 2 * real 2)) * staggerStrength exampleMini \<le> 1 \<and>
   calculateImageProgress exampleMini 1 2 = Some (7 / 26) \<and>
   calculateImageProgress exampleMini 0 2 = Some (1 / 2) \<and>
   calculateImageProgress (exampleMini\<lparr>mini_progress := 16 / 13\<rparr>) 1 2 = Some 1 \<and>
   calculateImageProgress (exampleMini\<lparr>mini_progress := 16 / 13\<rparr>) 0 2 = Some 1"
proof -
  have m: "mode exampleMini = ToMini" "zoomedImageIndex exampleMini = Some (int 0)"
    "staggerStrength exampleMini = 3 / 4" "mini_progress exampleMini = 1 / 2"
    by (simp_all add: exampleMini_def toMini_def new_MiniSliderSystem_def)
  have d: "(\<bar>real 1 - real 0\<bar> powr 1.25 / (real 2 * real 2)) * staggerStrength exampleMini \<le> 1"
    by (simp add: m)
  have half: "calculateImageProgress exampleMini 1 2 = Some (7 / 26)"
    "calculateImageProgress exampleMini 0 2 = Some (1 / 2)"
    by (simp_all add: calculateImageProgress_def calculateStaggerDelay_def m num_of_def)
  have far_full: "calculateImageProgress (exampleMini\<lparr>mini_progress := 16 / 13\<rparr>) 1 2 = Some 1"
    by (simp add: calculateImageProgress_def calculateStaggerDelay_def m num_of_def)
  from stagger_far_item_not_before_focused
         [of "exampleMini\<lparr>mini_progress := 16 / 13\<rparr>" 0 2 1] m d far_full
  have "calculateImageProgress (exampleMini\<lparr>mini_progress := 16 / 13\<rparr>) 0 2 = Some 1"
    by auto
  then show ?thesis using m d half far_full by simp
qed

text \<open>
  The claim as stated, for every strength above 0, fails at strength 8 with two images:
  the delay of slot 1 is 2, the term \<open>delay / (1 - delay)\<close> is negative, and slot 1 is at
  full progress when the transition starts, while the focused slot 0 is at 0.
\<close>

theorem stagger_strong_counterexample:
  "0 < staggerStrength strongStagger \<and> mode strongStagger = ToMini \<and>
   zoomedImageIndex strongStagger = Some 0 \<and> mini_progress strongStagger = 0 \<and>
   calculateImageProgress strongStagger 1 2 = Some 1 \<and>
   calculateImageProgress strongStagger 0 2 = Some 0"
  by (simp add: calculateImageProgress_def calculateStaggerDelay_def strongStagger_def
      new_MiniSliderSystem_def num_of_def toMini_def)

section \<open>Properties of the title\<close>

text \<open>
  Claim C10. With no title showing, \<open>hideTitle\<close> returns normally and the title state is
  the one before the call, field for field.
\<close>

theorem hideTitle_without_title:
  assumes "currentTitleIndex t = None"
  shows "hideTitle t = Inr t"
  using assms by (simp add: hideTitle_def)

theorem hideTitle_without_title_witness:
  "currentTitleIndex (new_TitleAnimationSystem 2) = None \<and>
   hideTitle (new_TitleAnimationSystem 2) = Inr (new_TitleAnimationSystem 2)"
  using hideTitle_without_title [of "new_TitleAnimationSystem 2"]
  by (simp add: new_TitleAnimationSystem_def)

lemma title_update_total: "\<exists>t'. title_updateAnimation dt t = Inr t'"
  by (auto simp: title_updateAnimation_def showTitle_def Let_def split: option.splits)

lemma withTitle_frame:
  assumes "\<And>t. \<exists>t'. f t = Inr t'"
  shows "\<exists>c'. withTitle f c = Inr c' \<and> (\<exists>ta. c' = c\<lparr>titleAnimation := ta\<rparr>)"
proof (cases "if showTitles c then titleAnimation c else None")
  case None
  then have "withTitle f c = Inr c" by (simp add: withTitle_def)
  moreover have "c = c\<lparr>titleAnimation := titleAnimation c\<rparr>" by simp
  ultimately show ?thesis by blast
next
  case (Some t)
  obtain t' where "f t = Inr t'" using assms by blast
  then have "withTitle f c = Inr (c\<lparr>titleAnimation := Some t'\<rparr>)"
    using Some by (simp add: withTitle_def)
  then show ?thesis by blast
qed

section \<open>Properties of the index counter\<close>

lemma render_index:
  assumes "imagesLength c \<noteq> 0" and "showIndex c"
  shows "render c =
           map_option (\<lambda>i. (if mini_isActive (miniSliderSystem c)
                   then c\<lparr>miniSliderSystem := snd (getProgress (miniSliderSystem c) 0 (imagesLength c))\<rparr>
                   else c)\<lparr>indexAnimation := i\<rparr>)
             (updateIndex (smoothPosition (state c)) (maskWidth c) (maskGap c) (indexAnimation c))"
  using assms by (simp add: render_def Let_def split: option.splits)

lemma newTargetIndex_formula:
  assumes "w + g \<noteq> 0"
  shows "newTargetIndex p w g = Some (specTargetIndex p w g)"
  using assms by (simp add: newTargetIndex_def specTargetIndex_def Let_def)

lemma updateProgress_keeps:
  "currentIndex (updateProgress s) = currentIndex s \<and>
   targetIndex (updateProgress s) = targetIndex s \<and>
   lastDirection (updateProgress s) = lastDirection s \<and>
   style (updateProgress s) = style s"
  by (simp add: updateProgress_def updateSnapProgress_def updateSmoothOrClippedProgress_def Let_def)

lemma start_snap:
  assumes "style s = Snap"
  shows "snapProgress (updateProgress (startTransition new s)) = 1 / 4 \<and>
         snapOffset (updateProgress (startTransition new s)) =
           config_height * (if new > targetIndex s then 1 else - 1) * (1 - (1 - (1 - 1 / 4)\<^sup>2))"
  using assms
  by (simp add: updateProgress_def startTransition_def updateSnapAnimation_def
      updateSnapProgress_def animationSpeed_def Let_def)

lemma start_smooth_or_clipped:
  assumes "style s \<noteq> Snap"
  shows "index_isTransitioning (updateProgress (startTransition new s)) \<and>
         transitionProgress (updateProgress (startTransition new s)) = animationSpeed (style s) \<and>
         index_offset (updateProgress (startTransition new s)) =
           numberSpacing (style s) * (if new > targetIndex s then 1 else - 1)
             * (1 - easeOutCubic (animationSpeed (style s)))"
  using assms
  by (cases "style s")
     (simp_all add: updateProgress_def startTransition_def updateSmoothOrClippedAnimation_def
      updateSmoothOrClippedProgress_def animationSpeed_def Let_def)

lemma start_fields:
  "currentIndex (startTransition new s) = targetIndex s \<and>
   targetIndex (startTransition new s) = new \<and>
   style (startTransition new s) = style s \<and>
   (style s \<noteq> Snap \<longrightarrow> lastDirection (startTransition new s) = (if new > targetIndex s then 1 else - 1))"
  by (simp add: startTransition_def updateSnapAnimation_def updateSmoothOrClippedAnimation_def Let_def)

text \<open>
  Claim C6, as the code has it. A render with at least one image loaded, the index
  feature on and \<open>maskWidth + maskGap\<close> not 0 recomputes the target slot index from the
  smoothed scroll position, by the specification's formula. When it differs from the
  stored target index the transition is started afresh: the current index becomes the old
  target, and after the progress step of the same render the snap style is at progress
  \<open>1/4\<close> with its offset on the side of the direction, the other styles are transitioning
  at one step of progress with the direction recorded. When it does not differ, only the
  progress step runs, and current index and direction stay.
\<close>

theorem index_target_from_smoothed_position:
  assumes "imagesLength c \<noteq> 0" and "showIndex c" and "maskWidth c + maskGap c \<noteq> 0"
  shows "\<exists>c'. render c = Some c' \<and>
           (let new = specTargetIndex (smoothPosition (state c)) (maskWidth c) (maskGap c);
                old = indexAnimation c; dir = (if new > targetIndex old then 1 else - 1);
                i = indexAnimation c'
            in targetIndex i = new \<and>
               (new \<noteq> targetIndex old \<longrightarrow>
                  i = updateProgress (startTransition new old) \<and>
                  currentIndex i = targetIndex old \<and>
                  (style old = Snap \<longrightarrow>
                     snapProgress i = 1 / 4 \<and>
                     snapOffset i = config_height * real_of_int dir * (1 - (1 - (1 - 1 / 4)\<^sup>2))) \<and>
                  (style old \<noteq> Snap \<longrightarrow>
                     lastDirection i = dir \<and> index_isTransitioning i \<and>
                     transitionProgress i = animationSpeed (style old) \<and>
                     index_offset i = numberSpacing (style old) * real_of_int dir
                                        * (1 - easeOutCubic (animationSpeed (style old))))) \<and>
               (new = targetIndex old \<longrightarrow>
                  i = updateProgress old \<and> currentIndex i = currentIndex old \<and>
                  lastDirection i = lastDirection old))"
proof -
  define new where "new = specTargetIndex (smoothPosition (state c)) (maskWidth c) (maskGap c)"
  define old where "old = indexAnimation c"
  define i where "i = updateProgress (if new \<noteq> targetIndex old then startTransition new old else old)"
  define c1 where "c1 = (if mini_isActive (miniSliderSystem c)
                   then c\<lparr>miniSliderSystem := snd (getProgress (miniSliderSystem c) 0 (imagesLength c))\<rparr>
                   else c)"
  have nt: "newTargetIndex (smoothPosition (state c)) (maskWidth c) (maskGap c) = Some new"
    using assms(3) unfolding new_def by (rule newTargetIndex_formula)
  have r: "render c = Some (c1\<lparr>indexAnimation := i\<rparr>)"
    using assms(1,2) nt
    by (simp add: render_index updateIndex_def i_def old_def c1_def)
  have t: "targetIndex i = new"
    using updateProgress_keeps[of "startTransition new old"] updateProgress_keeps[of old]
      start_fields[of new old]
    by (simp add: i_def)
  have ch: "i = updateProgress (startTransition new old) \<and> currentIndex i = targetIndex old"
    if "new \<noteq> targetIndex old"
    using that updateProgress_keeps[of "startTransition new old"] start_fields[of new old]
    by (simp add: i_def)
  have sn: "snapProgress i = 1 / 4 \<and>
            snapOffset i = config_height * real_of_int (if new > targetIndex old then 1 else - 1)
                        * (1 - (1 - (1 - 1 / 4)\<^sup>2))"
    if "new \<noteq> targetIndex old" "style old = Snap"
    using that start_snap[of old new] by (simp add: i_def)
  have sc: "lastDirection i = (if new > targetIndex old then 1 else - 1) \<and>
            index_isTransitioning i \<and>
            transitionProgress i = animationSpeed (style old) \<and>
            index_offset i = numberSpacing (style old)
                        * real_of_int (if new > targetIndex old then 1 else - 1)
                        * (1 - easeOutCubic (animationSpeed (style old)))"
    if "new \<noteq> targetIndex old" "style old \<noteq> Snap"
    using that start_smooth_or_clipped[of old new] updateProgress_keeps[of "startTransition new old"]
      start_fields[of new old]
    by (simp add: i_def)
  have same: "i = updateProgress old \<and> currentIndex i = currentIndex old \<and>
              lastDirection i = lastDirection old"
    if "new = targetIndex old"
    using that updateProgress_keeps[of old] by (simp add: i_def)
  have ia: "indexAnimation (c1\<lparr>indexAnimation := i\<rparr>) = i" by simp
  have "let new' = new; old' = old; dir = (if new' > targetIndex old' then 1 else - 1);
            i' = indexAnimation (c1\<lparr>indexAnimation := i\<rparr>)
        in targetIndex i' = new' \<and>
               (new' \<noteq> targetIndex old' \<longrightarrow>
                  i' = updateProgress (startTransition new' old') \<and>
                  currentIndex i' = targetIndex old' \<and>
                  (style old' = Snap \<longrightarrow>
                     snapProgress i' = 1 / 4 \<and>
                     snapOffset i' = config_height * real_of_int dir * (1 - (1 - (1 - 1 / 4)\<^sup>2))) \<and>
                  (style old' \<noteq> Snap \<longrightarrow>
                     lastDirection i' = dir \<and> index_isTransitioning i' \<and>
                     transitionProgress i' = animationSpeed (style old') \<and>
                     index_offset i' = numberSpacing (style old') * real_of_int dir
                                        * (1 - easeOutCubic (animationSpeed (style old'))))) \<and>
               (new' = targetIndex old' \<longrightarrow>
                  i' = updateProgress old' \<and> currentIndex i' = currentIndex old' \<and>
                  lastDirection i' = lastDirection old')"
    unfolding Let_def ia using t ch sn sc same by blast
  then show ?thesis
    unfolding new_def old_def using r by blast
qed

section \<open>Properties of the orchestrator\<close>

text \<open>A tick never throws; its scroll state is that of the physics step.\<close>

lemma updateMotion_frame:
  "\<exists>c'. updateMotion deltaTime c = Inr c' \<and>
        state c' = sliderMotion (animations c) (deltaTime / timingNormalizer (animations c)) (state c) \<and>
        animations c' = animations c \<and> maskWidth c' = maskWidth c \<and> maskGap c' = maskGap c \<and>
        innerWidth c' = innerWidth c \<and> imagesLength c' = imagesLength c \<and>
        showIndex c' = showIndex c \<and> showTitles c' = showTitles c \<and>
        indexAnimation c' = indexAnimation c \<and>
        (\<not> zoom_isActive (zoomSystem c) \<longrightarrow>
           zoomSystem c' = zoomSystem c \<and>
           miniSliderSystem c' =
             (if mini_isActive (miniSliderSystem c) then setInactive (miniSliderSystem c)
              else miniSliderSystem c))"
proof -
  define dt where "dt = deltaTime / timingNormalizer (animations c)"
  define c1 where "c1 = (if zoom_isActive (zoomSystem c)
                then c\<lparr>zoomSystem := zoom_updateAnimation dt (zoomSystem c),
                       miniSliderSystem := mini_updateAnimation dt (miniSliderSystem c)\<rparr>
                else if mini_isActive (miniSliderSystem c)
                then c\<lparr>miniSliderSystem := setInactive (miniSliderSystem c)\<rparr>
                else c)"
  define c2 where "c2 = (if isInToMiniMode (miniSliderSystem c1) \<and> \<not> cross_isInToMiniMode (crossAnimation c1)
                then c1\<lparr>crossAnimation := hideCenter (crossAnimation c1)\<rparr>
                else if isInToSliderMode (miniSliderSystem c1)
                        \<and> \<not> cross_isInToSliderMode (crossAnimation c1)
                then c1\<lparr>crossAnimation := showCenter (crossAnimation c1)\<rparr>
                else c1)"
  define c3 where "c3 = c2\<lparr>crossAnimation := cross_updateAnimation dt (crossAnimation c2)\<rparr>"
  obtain c4 ta where c4: "withTitle (title_updateAnimation dt) c3 = Inr c4"
    and c4': "c4 = c3\<lparr>titleAnimation := ta\<rparr>"
    using withTitle_frame[of "title_updateAnimation dt" c3] title_update_total by blast
  have "updateMotion deltaTime c =
          (case withTitle (title_updateAnimation dt) c3 of
             Inl e \<Rightarrow> Inl e | Inr c4 \<Rightarrow> Inr (updateSliderMotion dt c4))"
    unfolding updateMotion_def Let_def c3_def c2_def c1_def dt_def by (rule refl)
  then have um: "updateMotion deltaTime c = Inr (updateSliderMotion dt c4)"
    by (simp add: c4)
  have "state c1 = state c" "animations c1 = animations c" "maskWidth c1 = maskWidth c"
    "maskGap c1 = maskGap c" "innerWidth c1 = innerWidth c" "imagesLength c1 = imagesLength c"
    "showIndex c1 = showIndex c" "showTitles c1 = showTitles c" "indexAnimation c1 = indexAnimation c"
    by (simp_all add: c1_def)
  moreover have "state c3 = state c1" "animations c3 = animations c1" "maskWidth c3 = maskWidth c1"
    "maskGap c3 = maskGap c1" "innerWidth c3 = innerWidth c1" "imagesLength c3 = imagesLength c1"
    "showIndex c3 = showIndex c1" "showTitles c3 = showTitles c1" "indexAnimation c3 = indexAnimation c1"
    "zoomSystem c3 = zoomSystem c1" "miniSliderSystem c3 = miniSliderSystem c1"
    by (simp_all add: c3_def c2_def)
  moreover have "\<not> zoom_isActive (zoomSystem c) \<Longrightarrow> zoomSystem c1 = zoomSystem c \<and> miniSliderSystem c1 =
             (if mini_isActive (miniSliderSystem c) then setInactive (miniSliderSystem c)
              else miniSliderSystem c)"
    by (simp add: c1_def)
  ultimately show ?thesis
    unfolding um dt_def[symmetric] by (simp add: c4' updateSliderMotion_def)
qed

lemma handleWheel_unzoomed:
  assumes "\<not> zoom_isActive (zoomSystem c)"
  shows "\<exists>c'. handleWheel deltaX deltaY c = Inr c' \<and>
          state c' = (state c)\<lparr>targetPosition := None,
                       velocity := max (- maxVelocity (animations c))
                         (min (maxVelocity (animations c))
                            (velocity (state c) + (deltaX + deltaY) * wheelSensitivity (animations c)))\<rparr> \<and>
          animations c' = animations c \<and> maskWidth c' = maskWidth c \<and> maskGap c' = maskGap c \<and>
          innerWidth c' = innerWidth c \<and> imagesLength c' = imagesLength c \<and>
          showIndex c' = showIndex c \<and> indexAnimation c' = indexAnimation c \<and>
          zoomSystem c' = zoomSystem c \<and> miniSliderSystem c' = miniSliderSystem c"
proof -
  obtain c0 ta where c0: "withTitle (\<lambda>t. Inr (resetNextTitle t)) c = Inr c0"
    and c0': "c0 = c\<lparr>titleAnimation := ta\<rparr>"
    using withTitle_frame[of "\<lambda>t. Inr (resetNextTitle t)" c] by blast
  show ?thesis
    using assms by (simp add: handleWheel_def c0 c0' Let_def addVelocity_def)
qed

lemma exp_bounds: "37 / 40 \<le> exp (- (3 / 40) :: real)" "exp (- (3 / 40) :: real) < 1"
  using exp_ge_add_one_self[of "- (3 / 40) :: real"] by simp_all

lemma dampingFor_bounds:
  assumes "edgeDamping cfg \<le> baseDamping cfg"
  shows "edgeDamping cfg \<le> dampingFor cfg a b z v \<and> dampingFor cfg a b z v \<le> baseDamping cfg"
proof -
  have e: "edgeDamping cfg \<le> expDecay (edgeDamping cfg) (baseDamping cfg) 1 f \<and>
           expDecay (edgeDamping cfg) (baseDamping cfg) 1 f \<le> baseDamping cfg" if "0 \<le> f" for f
  proof -
    have y: "0 \<le> 1 - exp (- f)" "1 - exp (- f) \<le> 1" using that by simp_all
    have x: "0 \<le> baseDamping cfg - edgeDamping cfg" using assms by simp
    have "0 \<le> (baseDamping cfg - edgeDamping cfg) * (1 - exp (- f))"
      using x y(1) by (rule mult_nonneg_nonneg)
    moreover have "(baseDamping cfg - edgeDamping cfg) * (1 - exp (- f))
                     \<le> (baseDamping cfg - edgeDamping cfg) * 1"
      using y(2) x by (rule mult_left_mono)
    ultimately show ?thesis by (simp add: expDecay_def)
  qed
  show ?thesis
    using assms e[of 0] e[of "max 0 (a / z)"] e[of "max 0 (b / z)"]
    by (simp add: dampingFor_def Let_def)
qed


text \<open>
  Claim C3. A tick with the zoom inactive returns normally with the mini slider
  inactive: if the mini slider was active, the tick has called \<open>setInactive\<close> on it, and
  nothing later in the tick touches it.
\<close>

theorem inactive_zoom_forces_mini_inactive:
  assumes "\<not> zoom_isActive (zoomSystem c)"
  shows "\<exists>c'. updateMotion deltaTime c = Inr c' \<and>
           mode (miniSliderSystem c') = Inactive \<and>
           miniSliderSystem c' =
             (if mini_isActive (miniSliderSystem c) then setInactive (miniSliderSystem c)
              else miniSliderSystem c)"
proof -
  obtain c' where c': "updateMotion deltaTime c = Inr c'"
    and m: "miniSliderSystem c' =
             (if mini_isActive (miniSliderSystem c) then setInactive (miniSliderSystem c)
              else miniSliderSystem c)"
    using updateMotion_frame [of deltaTime c] assms by blast
  have "mode (miniSliderSystem c') = Inactive"
    unfolding m by (simp add: mini_isActive_def setInactive_def)
  with c' m show ?thesis by blast
qed

theorem inactive_zoom_forces_mini_inactive_witness:
  "\<not> zoom_isActive (zoomSystem exampleStale) \<and>
   mode (miniSliderSystem exampleStale) = ToSlider \<and>
   (\<exists>c'. updateMotion 16 exampleStale = Inr c' \<and> mode (miniSliderSystem c') = Inactive \<and>
      mini_progress (miniSliderSystem c') = 0)"
proof -
  have idle: "\<not> zoom_isActive (zoomSystem exampleStale)"
    by (simp add: exampleStale_def initialCarousel_def calculateBoundaries_def Let_def
        new_ImageZoomSystem_def)
  have stale: "mode (miniSliderSystem exampleStale) = ToSlider"
    by (simp add: exampleStale_def toSlider_def toMini_def)
  from inactive_zoom_forces_mini_inactive [OF idle, of 16]
  obtain c' where "updateMotion 16 exampleStale = Inr c'"
    and "mode (miniSliderSystem c') = Inactive"
    and "miniSliderSystem c' =
           (if mini_isActive (miniSliderSystem exampleStale)
            then setInactive (miniSliderSystem exampleStale)
            else miniSliderSystem exampleStale)"
    by blast
  moreover from this stale have "mini_progress (miniSliderSystem c') = 0"
    by (simp add: mini_isActive_def setInactive_def)
  ultimately show ?thesis using idle stale by blast
qed

section \<open>Properties of the scroll physics\<close>



lemma snap_tick:
  assumes "targetPosition s = Some t" "\<bar>t - currentPosition s\<bar> < 0.1" "0 \<le> minVelocity cfg"
  shows "currentPosition (sliderMotion cfg dt s) = t \<and>
         targetPosition (sliderMotion cfg dt s) = None \<and>
         velocity (sliderMotion cfg dt s) = 0"
  using assms by (simp add: sliderMotion_def seekTarget_def integrate_def Let_def)

text \<open>
  The tick with a target 0.1 or more away, in full: the velocity is set from the distance,
  damped, and integrated; a position past a bound is clamped, with the velocity zeroed and
  the target cleared.
\<close>

lemma seek_tick_exact:
  assumes "targetPosition s = Some t" "\<not> \<bar>t - currentPosition s\<bar> < 0.1"
  shows "let X = positionSmoothing cfg * (t - currentPosition s);
             D = dampingFor cfg (currentPosition s - minScroll s) (maxScroll s - currentPosition s)
                   ((maxScroll s - minScroll s) * edgeZone cfg) X;
             v1 = X * D powr dt;
             np = currentPosition s + v1 * dt;
             s' = sliderMotion cfg dt s
         in velocity s' = (if np < minScroll s \<or> np > maxScroll s then 0 else v1) \<and>
            currentPosition s' =
              (if np < minScroll s then minScroll s else if np > maxScroll s then maxScroll s else np) \<and>
            targetPosition s' = (if np < minScroll s \<or> np > maxScroll s then None else Some t)"
  using assms
  by (simp add: sliderMotion_def seekTarget_def integrate_def Let_def)





text \<open>The integration block keeps the position within the bounds, and a clamp zeroes the
  velocity and clears the target.\<close>

lemma integrate_within_bounds:
  assumes "minScroll s \<le> maxScroll s"
    and "minScroll s \<le> currentPosition s" "currentPosition s \<le> maxScroll s"
  shows "minScroll (integrate cfg dt s) \<le> currentPosition (integrate cfg dt s) \<and>
         currentPosition (integrate cfg dt s) \<le> maxScroll (integrate cfg dt s)"
  using assms by (simp add: integrate_def Let_def)

lemma integrate_clamp:
  assumes "\<bar>velocity s\<bar> > minVelocity cfg \<or> targetPosition s \<noteq> None"
    and "currentPosition s + velocity s * dt < minScroll s
         \<or> currentPosition s + velocity s * dt > maxScroll s"
  shows "velocity (integrate cfg dt s) = 0 \<and> targetPosition (integrate cfg dt s) = None \<and>
         (currentPosition (integrate cfg dt s) = minScroll s
          \<or> currentPosition (integrate cfg dt s) = maxScroll s)"
  using assms by (auto simp: integrate_def Let_def)

lemma seekTarget_bounds:
  "minScroll (seekTarget cfg s) = minScroll s \<and> maxScroll (seekTarget cfg s) = maxScroll s"
  by (simp add: seekTarget_def Let_def split: option.splits)

lemma sliderMotion_bounds_kept:
  "minScroll (sliderMotion cfg dt s) = minScroll s \<and> maxScroll (sliderMotion cfg dt s) = maxScroll s"
proof -
  have "minScroll (integrate cfg dt s') = minScroll s' \<and> maxScroll (integrate cfg dt s') = maxScroll s'"
    for s' by (simp add: integrate_def Let_def)
  then show ?thesis
    unfolding sliderMotion_def Let_def by (simp add: seekTarget_bounds)
qed

text \<open>A tick keeps the position within the bounds unless it snaps to a target outside
  them.\<close>

lemma sliderMotion_within_bounds:
  assumes "minScroll s \<le> maxScroll s"
    and "minScroll s \<le> currentPosition s" "currentPosition s \<le> maxScroll s"
    and "\<And>t. targetPosition s = Some t \<Longrightarrow> \<bar>t - currentPosition s\<bar> < 0.1 \<Longrightarrow>
            minScroll s \<le> t \<and> t \<le> maxScroll s"
  shows "minScroll (sliderMotion cfg dt s) = minScroll s \<and>
         maxScroll (sliderMotion cfg dt s) = maxScroll s \<and>
         minScroll s \<le> currentPosition (sliderMotion cfg dt s) \<and>
         currentPosition (sliderMotion cfg dt s) \<le> maxScroll s"
proof -
  define s1 where "s1 = seekTarget cfg s"
  have b1: "minScroll s1 = minScroll s" "maxScroll s1 = maxScroll s"
    by (simp_all add: s1_def seekTarget_bounds)
  have p1: "minScroll s \<le> currentPosition s1 \<and> currentPosition s1 \<le> maxScroll s"
    using assms(2-4) by (auto simp: s1_def seekTarget_def Let_def split: option.splits)
  have *: "minScroll (integrate cfg dt (s1\<lparr>velocity := v\<rparr>)) = minScroll s \<and>
        maxScroll (integrate cfg dt (s1\<lparr>velocity := v\<rparr>)) = maxScroll s \<and>
        minScroll s \<le> currentPosition (integrate cfg dt (s1\<lparr>velocity := v\<rparr>)) \<and>
        currentPosition (integrate cfg dt (s1\<lparr>velocity := v\<rparr>)) \<le> maxScroll s" for v
    using assms(1) p1 b1 by (simp add: integrate_def Let_def)
  show ?thesis
    unfolding sliderMotion_def Let_def s1_def[symmetric] using * by simp
qed

section \<open>Properties of the navigation\<close>

text \<open>
  An index below 0, or not below the number of images: the warning, and the carousel as
  it was.
\<close>

lemma goToImage_out_of_bounds:
  assumes "index < 0 \<or> index \<ge> int (imagesLength c)"
  shows "goToImage index c = ([InvalidImageIndex index], c)"
  using assms by (simp add: goToImage_def)

text \<open>
  An index within bounds: no warning; the target is set from the position, the slot and
  the smoothed position, and nothing else of the scroll state changes; the zoom system
  takes the index when it is active.
\<close>

lemma goToImage_in_bounds:
  assumes "0 \<le> index" "index < int (imagesLength c)"
  shows "fst (goToImage index c) = [] \<and>
      state (snd (goToImage index c)) =
        (state c)\<lparr>targetPosition :=
           Some (currentPosition (state c)
                 + (real_of_int index * (maskWidth c + maskGap c) - smoothPosition (state c)))\<rparr> \<and>
      zoomSystem (snd (goToImage index c)) =
        (if zoom_isActive (zoomSystem c) then transitionToImage index (zoomSystem c)
         else zoomSystem c)"
  using assms by (simp add: goToImage_def updateTargetPosition_def Let_def)

text \<open>With the smoothed position caught up, the target is the slot's own position.\<close>

lemma goToImage_at_rest:
  assumes "0 \<le> index" "index < int (imagesLength c)"
    and "smoothPosition (state c) = currentPosition (state c)"
  shows "targetPosition (state (snd (goToImage index c))) =
           Some (real_of_int index * (maskWidth c + maskGap c))"
  using goToImage_in_bounds [OF assms(1,2)] assms(3) by simp

text \<open>What the zoom system does with the index: a sequential stage transition.\<close>

lemma transitionToImage_effect:
  assumes "Some index \<noteq> zoom_imageIndex z" "Some index \<noteq> stage_currentIndex (stageSystem z)"
    "\<not> isJumpTransition (stageSystem z)"
  shows "zoom_imageIndex (transitionToImage index z) = Some index \<and>
         stage_currentIndex (stageSystem (transitionToImage index z)) = Some index \<and>
         stage_isTransitioning (stageSystem (transitionToImage index z)) \<and>
         length (stages (stageSystem (transitionToImage index z))) = length (stages (stageSystem z)) \<and>
         (\<forall>idx < length (stages (stageSystem z)).
            targetOffset (image_part (stages (stageSystem (transitionToImage index z)) ! idx)) =
              (if int idx = index then 0 else if index > int idx then - 0.5 else 0.5) \<and>
            offset (image_part (stages (stageSystem (transitionToImage index z)) ! idx)) =
              offset (image_part (stages (stageSystem z) ! idx)))"
  using assms
  by (simp add: transitionToImage_def transitionTo_def updateRenderOrder_def Let_def
      sequentialStage_def nth_enumerate_eq)

lemma goToImage_transitions_zoom:
  assumes "0 \<le> index" "index < int (imagesLength c)" "zoom_isActive (zoomSystem c)"
    and "Some index \<noteq> zoom_imageIndex (zoomSystem c)"
    and "Some index \<noteq> stage_currentIndex (stageSystem (zoomSystem c))"
    and "\<not> isJumpTransition (stageSystem (zoomSystem c))"
  shows "zoom_imageIndex (zoomSystem (snd (goToImage index c))) = Some index \<and>
         stage_currentIndex (stageSystem (zoomSystem (snd (goToImage index c)))) = Some index \<and>
         stage_isTransitioning (stageSystem (zoomSystem (snd (goToImage index c))))"
  using goToImage_in_bounds [OF assms(1,2)] assms(3) transitionToImage_effect [OF assms(4-6)]
  by simp

section \<open>Runs from the initial carousel\<close>

lemma initial_two:
  "state (initialCarousel 2) =
     \<lparr>currentPosition = 0, smoothPosition = 0, velocity = 0, minScroll = 0, maxScroll = 408,
      targetPosition = None\<rparr>"
  "animations (initialCarousel 2) = defaultAnimations"
  "maskWidth (initialCarousel 2) = 378" "maskGap (initialCarousel 2) = 30"
  "imagesLength (initialCarousel 2) = 2"
  "\<not> zoom_isActive (zoomSystem (initialCarousel 2))"
  by (simp_all add: initialCarousel_def calculateBoundaries_def new_ImageZoomSystem_def Let_def)

lemma initial_three:
  "state (initialCarousel 3) =
     \<lparr>currentPosition = 0, smoothPosition = 0, velocity = 0, minScroll = 0, maxScroll = 816,
      targetPosition = None\<rparr>"
  "animations (initialCarousel 3) = defaultAnimations"
  "maskWidth (initialCarousel 3) = 378" "maskGap (initialCarousel 3) = 30"
  "imagesLength (initialCarousel 3) = 3" "showIndex (initialCarousel 3)"
  "indexAnimation (initialCarousel 3) = new_IndexAnimationSystem Clipped"
  "\<not> zoom_isActive (zoomSystem (initialCarousel 3))"
  by (simp_all add: initialCarousel_def calculateBoundaries_def new_ImageZoomSystem_def Let_def)

lemma render_target:
  assumes "imagesLength c \<noteq> 0" and "showIndex c" and "maskWidth c + maskGap c \<noteq> 0"
  shows "\<exists>c'. render c = Some c' \<and>
           targetIndex (indexAnimation c') =
             specTargetIndex (smoothPosition (state c)) (maskWidth c) (maskGap c)"
proof -
  have "newTargetIndex (smoothPosition (state c)) (maskWidth c) (maskGap c) =
          Some (specTargetIndex (smoothPosition (state c)) (maskWidth c) (maskGap c))"
    using assms(3) by (rule newTargetIndex_formula)
  then show ?thesis
    using assms(1,2) updateProgress_keeps start_fields
    by (simp add: render_index updateIndex_def)
qed


text \<open>
  With the second slot centred and the smoothed position still behind at 300, a render
  starts the transition of the counter from 0 to 1, in the clipped and in the snap style;
  a render of the initial carousel leaves target and direction as they were.
\<close>

theorem index_target_from_smoothed_position_witness:
  "imagesLength scrolledToSecond \<noteq> 0 \<and> showIndex scrolledToSecond \<and>
   maskWidth scrolledToSecond + maskGap scrolledToSecond \<noteq> 0 \<and>
   specTargetIndex (smoothPosition (state scrolledToSecond)) (maskWidth scrolledToSecond)
     (maskGap scrolledToSecond) = 1 \<and>
   (\<exists>c'. render scrolledToSecond = Some c' \<and>
      targetIndex (indexAnimation c') = 1 \<and> currentIndex (indexAnimation c') = 0 \<and>
      lastDirection (indexAnimation c') = 1 \<and>
      transitionProgress (indexAnimation c') = 1 / 125) \<and>
   (\<exists>c'. render scrolledSnap = Some c' \<and>
      targetIndex (indexAnimation c') = 1 \<and> snapProgress (indexAnimation c') = 1 / 4 \<and>
      snapOffset (indexAnimation c') = 27 / 2) \<and>
   (\<exists>c'. render (initialCarousel 3) = Some c' \<and>
      targetIndex (indexAnimation c') = 0 \<and> lastDirection (indexAnimation c') = 0)"
proof -
  have n: "imagesLength scrolledToSecond \<noteq> 0" and on: "showIndex scrolledToSecond"
    and wide: "maskWidth scrolledToSecond + maskGap scrolledToSecond \<noteq> 0"
    by (simp_all add: scrolledToSecond_def initial_three)
  have one: "specTargetIndex (smoothPosition (state scrolledToSecond)) (maskWidth scrolledToSecond)
     (maskGap scrolledToSecond) = 1"
    by (simp add: scrolledToSecond_def initial_three specTargetIndex_def)
  have old: "targetIndex (indexAnimation scrolledToSecond) = 0"
    "style (indexAnimation scrolledToSecond) = Clipped"
    by (simp_all add: scrolledToSecond_def initial_three new_IndexAnimationSystem_def)
  from index_target_from_smoothed_position [OF n on wide]
  obtain c' where "render scrolledToSecond = Some c'"
    and "targetIndex (indexAnimation c') = 1"
    and "currentIndex (indexAnimation c') = targetIndex (indexAnimation scrolledToSecond)"
      "lastDirection (indexAnimation c') = 1"
      "transitionProgress (indexAnimation c') = animationSpeed (style (indexAnimation scrolledToSecond))"
    unfolding Let_def one old by auto
  then have clipped: "\<exists>c'. render scrolledToSecond = Some c' \<and>
      targetIndex (indexAnimation c') = 1 \<and> currentIndex (indexAnimation c') = 0 \<and>
      lastDirection (indexAnimation c') = 1 \<and>
      transitionProgress (indexAnimation c') = 1 / 125"
    by (auto simp: old animationSpeed_def)
  have sn: "imagesLength scrolledSnap \<noteq> 0" and son: "showIndex scrolledSnap"
    and swide: "maskWidth scrolledSnap + maskGap scrolledSnap \<noteq> 0"
    and sone: "specTargetIndex (smoothPosition (state scrolledSnap)) (maskWidth scrolledSnap)
     (maskGap scrolledSnap) = 1"
    and sold: "targetIndex (indexAnimation scrolledSnap) = 0"
      "style (indexAnimation scrolledSnap) = Snap"
    by (simp_all add: scrolledSnap_def scrolledToSecond_def initial_three specTargetIndex_def
        new_IndexAnimationSystem_def)
  from index_target_from_smoothed_position [OF sn son swide]
  obtain c' where "render scrolledSnap = Some c'"
    and "targetIndex (indexAnimation c') = 1"
    and "snapProgress (indexAnimation c') = 1 / 4"
    and "snapOffset (indexAnimation c') = config_height * real_of_int 1 * (1 - (1 - (1 - 1 / 4)\<^sup>2))"
    unfolding Let_def sone sold by auto
  then have snap: "\<exists>c'. render scrolledSnap = Some c' \<and>
      targetIndex (indexAnimation c') = 1 \<and> snapProgress (indexAnimation c') = 1 / 4 \<and>
      snapOffset (indexAnimation c') = 27 / 2"
    by (auto simp: config_height_def power2_eq_square)
  have rn: "imagesLength (initialCarousel 3) \<noteq> 0"
    and rwide: "maskWidth (initialCarousel 3) + maskGap (initialCarousel 3) \<noteq> 0"
    and rzero: "specTargetIndex (smoothPosition (state (initialCarousel 3)))
                  (maskWidth (initialCarousel 3)) (maskGap (initialCarousel 3)) = 0"
    and rold: "targetIndex (indexAnimation (initialCarousel 3)) = 0"
      "lastDirection (indexAnimation (initialCarousel 3)) = 0"
    by (simp_all add: initial_three specTargetIndex_def new_IndexAnimationSystem_def)
  from index_target_from_smoothed_position [OF rn initial_three(6) rwide]
  obtain c' where "render (initialCarousel 3) = Some c'"
    and "targetIndex (indexAnimation c') = 0"
    and "lastDirection (indexAnimation c') = lastDirection (indexAnimation (initialCarousel 3))"
    unfolding Let_def rzero rold(1) by auto
  then have rest: "\<exists>c'. render (initialCarousel 3) = Some c' \<and>
      targetIndex (indexAnimation c') = 0 \<and> lastDirection (indexAnimation c') = 0"
    by (auto simp: rold)
  show ?thesis
    using n on wide one clipped snap rest by blast
qed

text \<open>One tick after a wheel event of 600 on three images: no edge is near.\<close>

lemma free_tick:
  "sliderMotion defaultAnimations 1
     \<lparr>currentPosition = 0, smoothPosition = 0, velocity = 390, minScroll = 0,
      maxScroll = 816, targetPosition = None\<rparr> =
     \<lparr>currentPosition = 312, smoothPosition = 312 * (1 - exp (- (3 / 40))),
      velocity = 312, minScroll = 0, maxScroll = 816, targetPosition = None\<rparr>"
  by (simp add: sliderMotion_def seekTarget_def dampingFor_def integrate_def defaultAnimations_def
      expDecay_def Let_def)

text \<open>
  The claim as stated, that the index comes from the authoritative position, fails one
  tick after that wheel event: \<open>currentPosition\<close> is 312, in slot 1 by the
  specification's formula, while the smoothed position is below 24 and the render leaves
  the counter's target at 0.
\<close>

theorem index_lags_authoritative_position:
  "\<exists>c1 c2 c3. handleWheel 0 600 (initialCarousel 3) = Inr c1 \<and>
      updateMotion 16 c1 = Inr c2 \<and> render c2 = Some c3 \<and>
      currentPosition (state c2) = 312 \<and>
      specTargetIndex (currentPosition (state c2)) (maskWidth c2) (maskGap c2) = 1 \<and>
      targetIndex (indexAnimation c3) = 0"
proof -
  obtain c1 where c1: "handleWheel 0 600 (initialCarousel 3) = Inr c1"
    and s1: "state c1 = \<lparr>currentPosition = 0, smoothPosition = 0, velocity = 390, minScroll = 0,
                          maxScroll = 816, targetPosition = None\<rparr>"
    and k1: "animations c1 = defaultAnimations" "maskWidth c1 = 378" "maskGap c1 = 30"
      "imagesLength c1 = 3" "showIndex c1"
    using handleWheel_unzoomed [of "initialCarousel 3" 0 600]
    by (auto simp: initial_three defaultAnimations_def)
  obtain c2 where c2: "updateMotion 16 c1 = Inr c2"
    and s2: "state c2 = sliderMotion (animations c1) (16 / timingNormalizer (animations c1)) (state c1)"
    and k2: "maskWidth c2 = maskWidth c1" "maskGap c2 = maskGap c1"
      "imagesLength c2 = imagesLength c1" "showIndex c2 = showIndex c1"
    using updateMotion_frame [of 16 c1] by blast
  have tn: "16 / timingNormalizer defaultAnimations = 1" by (simp add: defaultAnimations_def)
  have s2': "state c2 = \<lparr>currentPosition = 312, smoothPosition = 312 * (1 - exp (- (3 / 40))),
      velocity = 312, minScroll = 0, maxScroll = 816, targetPosition = None\<rparr>"
    unfolding s2 k1 tn s1 by (rule free_tick)
  obtain c3 where c3: "render c2 = Some c3"
    and t3: "targetIndex (indexAnimation c3) =
               specTargetIndex (smoothPosition (state c2)) (maskWidth c2) (maskGap c2)"
    using render_target [of c2] by (auto simp: k2 k1)
  have lag: "312 * (1 - exp (- (3 / 40) :: real)) < 204"
    using exp_bounds(1) by simp
  have "targetIndex (indexAnimation c3) = 0"
    unfolding t3 using lag by (simp add: s2' k2 k1 specTargetIndex_def)
  moreover have "specTargetIndex (currentPosition (state c2)) (maskWidth c2) (maskGap c2) = 1"
    by (simp add: s2' k2 k1 specTargetIndex_def)
  ultimately show ?thesis using c1 c2 c3 s2' by auto
qed

text \<open>
  Two ticks on two images: a wheel event of 2 moves the position to \<open>26/25\<close>; a wheel
  event of \<open>- 4\<close> then runs it into the lower bound, where it is clamped to 0 while the
  smoothed position is still above 0.
\<close>

lemma first_tick:
  "sliderMotion defaultAnimations 1
     \<lparr>currentPosition = 0, smoothPosition = 0, velocity = 13 / 10, minScroll = 0,
      maxScroll = 408, targetPosition = None\<rparr> =
     \<lparr>currentPosition = 26 / 25, smoothPosition = 26 / 25 * (1 - exp (- (3 / 40))),
      velocity = 26 / 25, minScroll = 0, maxScroll = 408, targetPosition = None\<rparr>"
  by (simp add: sliderMotion_def seekTarget_def dampingFor_def integrate_def defaultAnimations_def
      expDecay_def Let_def)

lemma second_tick:
  "sliderMotion defaultAnimations 1
     \<lparr>currentPosition = 26 / 25, smoothPosition = 26 / 25 * (1 - exp (- (3 / 40))),
      velocity = - (39 / 25), minScroll = 0, maxScroll = 408, targetPosition = None\<rparr> =
     \<lparr>currentPosition = 0,
      smoothPosition = 26 / 25 * (1 - exp (- (3 / 40))) * exp (- (3 / 40)),
      velocity = 0, minScroll = 0, maxScroll = 408, targetPosition = None\<rparr>"
proof -
  define D where "D = dampingFor defaultAnimations (26 / 25) (10174 / 25) 204 (- (39 / 25))"
  have "edgeDamping defaultAnimations \<le> D"
    unfolding D_def by (rule dampingFor_bounds[THEN conjunct1]) (simp add: defaultAnimations_def)
  then have D: "7 / 10 \<le> D" by (simp add: defaultAnimations_def)
  have fields: "edgeZone defaultAnimations = 1 / 2" "minVelocity defaultAnimations = 1 / 1000"
    "positionSmoothing defaultAnimations = 3 / 40"
    by (simp_all add: defaultAnimations_def)
  show ?thesis
    unfolding sliderMotion_def Let_def
    using D
    by (simp add: seekTarget_def integrate_def expDecay_def fields D_def[symmetric] field_simps)
qed

text \<open>
  Claim C1. The scroll position does not stay within the bounds on the code. After the
  two wheel events above the position is 0, within \<open>[0, 408]\<close>, and the smoothed position
  lags above it by less than 0.1. \<open>goToImage(0)\<close> computes its target from the smoothed
  position, below 0; the next tick finds the target closer than 0.1 and sets
  \<open>currentPosition\<close> to it, and with the velocity at 0 the integration block, which holds
  the only clamp, is skipped: the position ends below \<open>minScroll\<close>.
\<close>

theorem snap_leaves_scroll_range:
  "\<exists>c1 c2 c3 c4 c5 c6.
     handleWheel 0 2 (initialCarousel 2) = Inr c1 \<and> updateMotion 16 c1 = Inr c2 \<and>
     handleWheel 0 (- 4) c2 = Inr c3 \<and> updateMotion 16 c3 = Inr c4 \<and>
     minScroll (state c4) \<le> currentPosition (state c4) \<and>
     currentPosition (state c4) \<le> maxScroll (state c4) \<and>
     goToImage 0 c4 = ([], c5) \<and> updateMotion 16 c5 = Inr c6 \<and>
     minScroll (state c6) = 0 \<and> currentPosition (state c6) < 0"
proof -
  define a :: real where "a = exp (- (3 / 40))"
  have a: "37 / 40 \<le> a" "a < 1" using exp_bounds by (simp_all add: a_def)
  have tn: "16 / timingNormalizer defaultAnimations = 1" by (simp add: defaultAnimations_def)
  obtain c1 where c1: "handleWheel 0 2 (initialCarousel 2) = Inr c1"
    and s1: "state c1 = \<lparr>currentPosition = 0, smoothPosition = 0, velocity = 13 / 10,
               minScroll = 0, maxScroll = 408, targetPosition = None\<rparr>"
    and k1: "animations c1 = defaultAnimations" "maskWidth c1 = 378" "maskGap c1 = 30"
      "imagesLength c1 = 2" "\<not> zoom_isActive (zoomSystem c1)"
    using handleWheel_unzoomed [of "initialCarousel 2" 0 2]
    by (auto simp: initial_two defaultAnimations_def)
  obtain c2 where c2: "updateMotion 16 c1 = Inr c2"
    and s2: "state c2 = sliderMotion (animations c1) (16 / timingNormalizer (animations c1)) (state c1)"
    and k2: "animations c2 = animations c1" "maskWidth c2 = maskWidth c1" "maskGap c2 = maskGap c1"
      "imagesLength c2 = imagesLength c1" "zoomSystem c2 = zoomSystem c1"
    using updateMotion_frame [of 16 c1] k1(5) by blast
  have s2': "state c2 = \<lparr>currentPosition = 26 / 25, smoothPosition = 26 / 25 * (1 - a),
      velocity = 26 / 25, minScroll = 0, maxScroll = 408, targetPosition = None\<rparr>"
    unfolding s2 k1 tn s1 a_def by (rule first_tick)
  obtain c3 where c3: "handleWheel 0 (- 4) c2 = Inr c3"
    and s3: "state c3 = \<lparr>currentPosition = 26 / 25, smoothPosition = 26 / 25 * (1 - a),
      velocity = - (39 / 25), minScroll = 0, maxScroll = 408, targetPosition = None\<rparr>"
    and k3: "animations c3 = defaultAnimations" "maskWidth c3 = 378" "maskGap c3 = 30"
      "imagesLength c3 = 2" "\<not> zoom_isActive (zoomSystem c3)"
    using handleWheel_unzoomed [of c2 0 "- 4"] k1
    by (auto simp: k2 s2' defaultAnimations_def)
  obtain c4 where c4: "updateMotion 16 c3 = Inr c4"
    and s4: "state c4 = sliderMotion (animations c3) (16 / timingNormalizer (animations c3)) (state c3)"
    and k4: "animations c4 = animations c3" "maskWidth c4 = maskWidth c3" "maskGap c4 = maskGap c3"
      "imagesLength c4 = imagesLength c3" "zoomSystem c4 = zoomSystem c3"
    using updateMotion_frame [of 16 c3] k3(5) by blast
  define lag where "lag = 26 / 25 * (1 - a) * a"
  have s4': "state c4 = \<lparr>currentPosition = 0, smoothPosition = lag,
      velocity = 0, minScroll = 0, maxScroll = 408, targetPosition = None\<rparr>"
    unfolding s4 k3 tn s3 a_def lag_def by (rule second_tick)
  define c5 where "c5 = snd (goToImage 0 c4)"
  have c5: "goToImage 0 c4 = ([], c5)"
    by (simp add: c5_def goToImage_def k4 k3 Let_def updateTargetPosition_def)
  have s5: "state c5 = \<lparr>currentPosition = 0, smoothPosition = lag,
      velocity = 0, minScroll = 0, maxScroll = 408,
      targetPosition = Some (- lag)\<rparr>"
    and k5: "animations c5 = defaultAnimations"
    by (simp_all add: c5_def goToImage_def k4 k3 Let_def updateTargetPosition_def s4')
  obtain c6 where c6: "updateMotion 16 c5 = Inr c6"
    and s6: "state c6 = sliderMotion (animations c5) (16 / timingNormalizer (animations c5)) (state c5)"
    using updateMotion_frame [of 16 c5] by blast
  have pos: "0 < lag" using a by (simp add: lag_def)
  have "26 / 25 * (1 - a) * a \<le> 26 / 25 * (3 / 40) * 1"
    using a by (intro mult_mono) auto
  then have small: "lag < 1 / 10" by (simp add: lag_def)
  have h1: "targetPosition (state c5) = Some (- lag)" by (simp add: s5)
  have h2: "\<bar>- lag - currentPosition (state c5)\<bar> < 0.1" using pos small by (simp add: s5)
  have h3: "0 \<le> minVelocity defaultAnimations" by (simp add: defaultAnimations_def)
  have "currentPosition (state c6) = - lag"
    unfolding s6 k5 tn using snap_tick [OF h1 h2 h3, of 1] by simp
  moreover have "minScroll (state c6) = 0"
    unfolding s6 k5 tn
    using sliderMotion_bounds_kept [of defaultAnimations 1 "state c5"] by (simp add: s5)
  ultimately have out: "minScroll (state c6) = 0 \<and> currentPosition (state c6) < 0"
    using pos by simp
  have inside: "minScroll (state c4) \<le> currentPosition (state c4) \<and>
     currentPosition (state c4) \<le> maxScroll (state c4)"
    by (simp add: s4')
  from c1 c2 c3 c4 c5 c6 inside out show ?thesis by blast
qed


text \<open>
  Two ticks' worth of time after a wheel event of 616 on three images: the position is at
  512, past slot 1, and the smoothed position far behind.
\<close>

lemma exp_bound_two: "17 / 20 \<le> exp (- (3 / 20) :: real)"
  using exp_ge_add_one_self[of "- (3 / 20) :: real"] by simp

lemma long_tick:
  "sliderMotion defaultAnimations 2
     \<lparr>currentPosition = 0, smoothPosition = 0, velocity = 400, minScroll = 0,
      maxScroll = 816, targetPosition = None\<rparr> =
     \<lparr>currentPosition = 512, smoothPosition = 512 * (1 - exp (- (3 / 20))),
      velocity = 256, minScroll = 0, maxScroll = 816, targetPosition = None\<rparr>"
  by (simp add: sliderMotion_def seekTarget_def dampingFor_def integrate_def defaultAnimations_def
      expDecay_def Let_def power2_eq_square)

lemma tick_towards_far_target:
  assumes "minScroll s = 0" "maxScroll s = 816" "targetPosition s = Some T" "818 \<le> T"
    "0 \<le> currentPosition s" "currentPosition s \<le> 816"
  shows "(currentPosition (sliderMotion defaultAnimations 1 s) = 816 \<and>
          targetPosition (sliderMotion defaultAnimations 1 s) = None \<and>
          velocity (sliderMotion defaultAnimations 1 s) = 0) \<or>
         (minScroll (sliderMotion defaultAnimations 1 s) = 0 \<and>
          maxScroll (sliderMotion defaultAnimations 1 s) = 816 \<and>
          targetPosition (sliderMotion defaultAnimations 1 s) = Some T \<and>
          currentPosition s + 1 / 10 \<le> currentPosition (sliderMotion defaultAnimations 1 s) \<and>
          currentPosition (sliderMotion defaultAnimations 1 s) \<le> 816)"
proof -
  define X where "X = positionSmoothing defaultAnimations * (T - currentPosition s)"
  define D where "D = dampingFor defaultAnimations (currentPosition s - minScroll s)
      (maxScroll s - currentPosition s) ((maxScroll s - minScroll s) * edgeZone defaultAnimations) X"
  define np where "np = currentPosition s + X * D powr 1 * 1"
  have far: "\<not> \<bar>T - currentPosition s\<bar> < 0.1" using assms by simp
  have X: "3 / 20 \<le> X" using assms by (simp add: X_def defaultAnimations_def)
  have "edgeDamping defaultAnimations \<le> D"
    unfolding D_def by (rule dampingFor_bounds [THEN conjunct1]) (simp add: defaultAnimations_def)
  then have D: "7 / 10 \<le> D" by (simp add: defaultAnimations_def)
  have "3 / 20 * (7 / 10) \<le> X * D" using X D by (intro mult_mono) auto
  then have step: "currentPosition s + 1 / 10 \<le> np" using D by (simp add: np_def)
  have tick: "velocity (sliderMotion defaultAnimations 1 s) =
                (if np < minScroll s \<or> np > maxScroll s then 0 else X * D powr 1) \<and>
              currentPosition (sliderMotion defaultAnimations 1 s) =
                (if np < minScroll s then minScroll s else if np > maxScroll s then maxScroll s else np) \<and>
              targetPosition (sliderMotion defaultAnimations 1 s) =
                (if np < minScroll s \<or> np > maxScroll s then None else Some T)"
    using seek_tick_exact [OF assms(3) far, of defaultAnimations 1]
    unfolding Let_def X_def[symmetric] D_def[symmetric] np_def[symmetric] .
  have low: "\<not> np < minScroll s" using step assms by simp
  show ?thesis
  proof (cases "np > maxScroll s")
    case True
    then show ?thesis using tick low assms by simp
  next
    case False
    then show ?thesis
      using tick low step assms sliderMotion_bounds_kept [of defaultAnimations 1 s] by simp
  qed
qed

lemma reaches_upper_bound:
  assumes "minScroll s = 0" "maxScroll s = 816" "targetPosition s = Some T" "818 \<le> T"
    "0 \<le> currentPosition s" "currentPosition s \<le> 816"
    and "816 - currentPosition s < real k / 10"
  shows "\<exists>n. currentPosition ((sliderMotion defaultAnimations 1 ^^ n) s) = 816 \<and>
             targetPosition ((sliderMotion defaultAnimations 1 ^^ n) s) = None \<and>
             velocity ((sliderMotion defaultAnimations 1 ^^ n) s) = 0"
  using assms
proof (induction k arbitrary: s)
  case 0
  then show ?case by simp
next
  case (Suc k)
  let ?s' = "sliderMotion defaultAnimations 1 s"
  from tick_towards_far_target [OF Suc.prems(1-6)]
  consider (clamped) "currentPosition ?s' = 816 \<and> targetPosition ?s' = None \<and> velocity ?s' = 0"
    | (moved) "minScroll ?s' = 0 \<and> maxScroll ?s' = 816 \<and> targetPosition ?s' = Some T \<and>
          currentPosition s + 1 / 10 \<le> currentPosition ?s' \<and> currentPosition ?s' \<le> 816"
    by blast
  then show ?case
  proof cases
    case clamped
    then have "currentPosition ((sliderMotion defaultAnimations 1 ^^ 1) s) = 816 \<and>
             targetPosition ((sliderMotion defaultAnimations 1 ^^ 1) s) = None \<and>
             velocity ((sliderMotion defaultAnimations 1 ^^ 1) s) = 0"
      by simp
    then show ?thesis by blast
  next
    case moved
    then have "816 - currentPosition ?s' < real k / 10" "0 \<le> currentPosition ?s'"
      using Suc.prems(5,7) by (simp_all add: field_simps)
    with moved Suc.prems(4)
    obtain n where "currentPosition ((sliderMotion defaultAnimations 1 ^^ n) ?s') = 816 \<and>
             targetPosition ((sliderMotion defaultAnimations 1 ^^ n) ?s') = None \<and>
             velocity ((sliderMotion defaultAnimations 1 ^^ n) ?s') = 0"
      using Suc.IH [of ?s'] by blast
    then have "currentPosition ((sliderMotion defaultAnimations 1 ^^ Suc n) s) = 816 \<and>
             targetPosition ((sliderMotion defaultAnimations 1 ^^ Suc n) s) = None \<and>
             velocity ((sliderMotion defaultAnimations 1 ^^ Suc n) s) = 0"
      by (simp add: funpow_swap1)
    then show ?thesis by blast
  qed
qed

text \<open>
  Claim C8. Out of bounds \<open>goToImage\<close> warns and changes nothing, and with the zoom
  active it hands the index to the zoom system, as the lemmas on the navigation say. But
  the scroll target of an index within bounds is not set toward that slot on the code:
  it is set from the smoothed position, which lags. After the wheel event above the
  position is 512 and slot 1 lies behind it, at 408; \<open>goToImage(1)\<close> sets the target
  ahead, beyond the upper bound 816, and the ticks that follow run the carousel into that
  bound, which is the position of slot 2, where it comes to rest with the target cleared.
  (A tick of 16 ms acts on the scroll state as \<open>sliderMotion\<close> with \<open>dt = 1\<close>, whatever the
  other systems do.)
\<close>

theorem goToImage_misses_slot:
  "\<exists>c1 c2 c3 target n.
     handleWheel 0 616 (initialCarousel 3) = Inr c1 \<and> updateMotion 32 c1 = Inr c2 \<and>
     currentPosition (state c2) = 512 \<and> goToImage 1 c2 = ([], c3) \<and>
     real_of_int 1 * (maskWidth c3 + maskGap c3) = 408 \<and> maxScroll (state c3) = 816 \<and>
     targetPosition (state c3) = Some target \<and> 816 < target \<and>
     currentPosition ((sliderMotion (animations c3) 1 ^^ n) (state c3)) = 816 \<and>
     targetPosition ((sliderMotion (animations c3) 1 ^^ n) (state c3)) = None \<and>
     velocity ((sliderMotion (animations c3) 1 ^^ n) (state c3)) = 0 \<and>
     real_of_int 2 * (maskWidth c3 + maskGap c3) = 816"
proof -
  define b :: real where "b = exp (- (3 / 20))"
  have b: "17 / 20 \<le> b" using exp_bound_two by (simp add: b_def)
  have tn: "32 / timingNormalizer defaultAnimations = 2" by (simp add: defaultAnimations_def)
  obtain c1 where c1: "handleWheel 0 616 (initialCarousel 3) = Inr c1"
    and s1: "state c1 = \<lparr>currentPosition = 0, smoothPosition = 0, velocity = 400,
               minScroll = 0, maxScroll = 816, targetPosition = None\<rparr>"
    and k1: "animations c1 = defaultAnimations" "maskWidth c1 = 378" "maskGap c1 = 30"
      "imagesLength c1 = 3" "\<not> zoom_isActive (zoomSystem c1)"
    using handleWheel_unzoomed [of "initialCarousel 3" 0 616]
    by (auto simp: initial_three defaultAnimations_def)
  obtain c2 where c2: "updateMotion 32 c1 = Inr c2"
    and s2: "state c2 = sliderMotion (animations c1) (32 / timingNormalizer (animations c1)) (state c1)"
    and k2: "animations c2 = animations c1" "maskWidth c2 = maskWidth c1" "maskGap c2 = maskGap c1"
      "imagesLength c2 = imagesLength c1" "zoomSystem c2 = zoomSystem c1"
    using updateMotion_frame [of 32 c1] k1(5) by blast
  have s2': "state c2 = \<lparr>currentPosition = 512, smoothPosition = 512 * (1 - b),
      velocity = 256, minScroll = 0, maxScroll = 816, targetPosition = None\<rparr>"
    unfolding s2 k1 tn s1 b_def by (rule long_tick)
  define c3 where "c3 = snd (goToImage 1 c2)"
  define target where "target = 512 + (408 - 512 * (1 - b))"
  have c3: "goToImage 1 c2 = ([], c3)"
    by (simp add: c3_def goToImage_def k2 k1 Let_def)
  have s3: "state c3 = \<lparr>currentPosition = 512, smoothPosition = 512 * (1 - b),
      velocity = 256, minScroll = 0, maxScroll = 816, targetPosition = Some target\<rparr>"
    and k3: "animations c3 = defaultAnimations" "maskWidth c3 = 378" "maskGap c3 = 30"
    by (simp_all add: c3_def goToImage_def k2 k1 Let_def updateTargetPosition_def s2' target_def)
  have beyond: "818 \<le> target" using b by (simp add: target_def)
  obtain n where n: "currentPosition ((sliderMotion (animations c3) 1 ^^ n) (state c3)) = 816 \<and>
             targetPosition ((sliderMotion (animations c3) 1 ^^ n) (state c3)) = None \<and>
             velocity ((sliderMotion (animations c3) 1 ^^ n) (state c3)) = 0"
    unfolding k3 using reaches_upper_bound [of "state c3" target 3041] beyond by (auto simp: s3)
  have "currentPosition (state c2) = 512" by (simp add: s2')
  moreover have "real_of_int 1 * (maskWidth c3 + maskGap c3) = 408"
    "real_of_int 2 * (maskWidth c3 + maskGap c3) = 816" "maxScroll (state c3) = 816"
    "targetPosition (state c3) = Some target" "816 < target"
    using beyond by (simp_all add: k3 s3)
  ultimately show ?thesis using c1 c2 c3 n by blast
qed

end
